theory Spec2Isabelle
  imports Complex_Main
begin

section \<open>Patient selection on the add-space screen\<close>

text \<open>
  \<^verbatim>\<open>togglePatientSelection\<close> of \<^verbatim>\<open>app/space/add.tsx\<close> (the space-details screen has
  the same function). The state updater receives the previous selection and returns the
  next one: \<^verbatim>\<open>includes\<close> is membership, \<^verbatim>\<open>filter(id => id !== patientId)\<close> removes
  every occurrence, and the spread \<^verbatim>\<open>[...prevSelected, patientId]\<close> appends at the end.
\<close>

definition togglePatientSelection :: "string \<Rightarrow> string list \<Rightarrow> string list" where
  "togglePatientSelection patientId prevSelected =
     (if patientId \<in> set prevSelected
      then filter (\<lambda>id. id \<noteq> patientId) prevSelected
      else prevSelected @ [patientId])"

definition isPatientSelected :: "string list \<Rightarrow> string \<Rightarrow> bool" where
  "isPatientSelected selectedPatientIds patientId = (patientId \<in> set selectedPatientIds)"


section \<open>The mock analysis of the capture screen\<close>

text \<open>
  \<^verbatim>\<open>Math.random()\<close> returns a number in the half-open interval from 0 to 1. The model
  takes the sequence of its results as a parameter: \<open>rnd k\<close> is the value of the
  \<open>k\<close>-th call (counted from 0), and every function that draws numbers is told the index
  of the next call. \<^verbatim>\<open>Math.floor(Math.random() * n)\<close> is \<open>random_floor\<close>.
\<close>

type_synonym rng = "nat \<Rightarrow> real"

definition random_floor :: "rng \<Rightarrow> nat \<Rightarrow> nat \<Rightarrow> int" where
  "random_floor rnd k n = \<lfloor>rnd k * real n\<rfloor>"

text \<open>
  Reading an array at an index: JavaScript yields \<^verbatim>\<open>undefined\<close> outside the array, which
  is \<open>None\<close> here.
\<close>

definition js_index :: "'a list \<Rightarrow> int \<Rightarrow> 'a option" where
  "js_index xs i = (if 0 \<le> i \<and> i < int (length xs) then Some (xs ! nat i) else None)"

definition high_priority_hazards :: "string list" where
  "high_priority_hazards =
     [''Exposed wiring'', ''Wet floor without sign'', ''Blocked emergency exit'']"

definition medium_priority_hazards :: "string list" where
  "medium_priority_hazards =
     [''Cluttered pathway'', ''Poor lighting'', ''Loose carpeting'', ''Uneven flooring'']"

definition low_priority_hazards :: "string list" where
  "low_priority_hazards =
     [''Dim lighting'', ''Furniture placement'', ''Cable management needed'']"

definition possibleRecommendations :: "string list" where
  "possibleRecommendations =
     [''Move furniture to create wider pathways'',
      ''Secure loose cables along walls'',
      ''Install better lighting in dark areas'',
      ''Add grab bars near stairs and in bathrooms'',
      ''Remove trip hazards from walkways'',
      ''Use non-slip mats in wet areas'',
      ''Store frequently used items within easy reach'',
      ''Consider motion-activated night lights'']"

record hazard_list =
  high_priority :: "string option list"
  medium_priority :: "string option list"
  low_priority :: "string option list"

record detected_object =
  object_type :: string
  confidence :: real
  bbox :: "int list"

record mock_analysis =
  score :: int
  bounding_box_info :: "detected_object list"
  recommendations :: "string option list"
  hazards :: hazard_list

text \<open>
  The loop \<^verbatim>\<open>for (let i = 0; i < numRecommendations; i++)\<close>: each round draws one
  recommendation and pushes it unless the list already includes it. \<open>k\<close> is the index of
  the next call of \<^verbatim>\<open>Math.random\<close>.
\<close>

function recommendations_loop ::
  "rng \<Rightarrow> nat \<Rightarrow> int \<Rightarrow> int \<Rightarrow> string option list \<Rightarrow> string option list" where
  "recommendations_loop rnd k i numRecommendations recs =
     (if i < numRecommendations
      then (let rec = js_index possibleRecommendations
                        (random_floor rnd k (length possibleRecommendations))
            in recommendations_loop rnd (k + 1) (i + 1) numRecommendations
                 (if rec \<in> set recs then recs else recs @ [rec]))
      else recs)"
  by pat_completeness auto
termination
  by (relation "measure (\<lambda>(rnd, k, i, n, recs). nat (n - i))") auto

declare recommendations_loop.simps [simp del]

text \<open>
  \<^verbatim>\<open>generateMockAnalysis\<close>. A conditional expression draws its random number only when its
  condition holds, so the index of the next call depends on the score.
\<close>

definition generateMockAnalysis :: "rng \<Rightarrow> mock_analysis" where
  "generateMockAnalysis rnd =
     (let score = random_floor rnd 0 40 + 60;
          k1 = 1;
          high = (if score < 70
                  then [js_index high_priority_hazards
                          (random_floor rnd k1 (length high_priority_hazards))]
                  else []);
          k2 = (if score < 70 then k1 + 1 else k1);
          medium = (if score < 85
                    then [js_index medium_priority_hazards
                            (random_floor rnd k2 (length medium_priority_hazards))]
                    else []);
          k3 = (if score < 85 then k2 + 1 else k2);
          low = [js_index low_priority_hazards
                   (random_floor rnd k3 (length low_priority_hazards))];
          numRecommendations = random_floor rnd (k3 + 1) 3 + 2;
          recs = recommendations_loop rnd (k3 + 2) 0 numRecommendations []
      in \<lparr>score = score,
          bounding_box_info =
            [\<lparr>object_type = ''furniture'', confidence = 92 / 100,
              bbox = [50, 80, 200, 300]\<rparr>],
          recommendations = recs,
          hazards = \<lparr>high_priority = high, medium_priority = medium, low_priority = low\<rparr>\<rparr>)"


section \<open>Asynchronous operations as event traces\<close>

text \<open>
  The screens and the authentication hook are \<^verbatim>\<open>async\<close> functions that call setters of
  \<^verbatim>\<open>useState\<close>, \<^verbatim>\<open>fetch\<close>, \<^verbatim>\<open>SecureStore\<close>, \<^verbatim>\<open>Alert.alert\<close> and the router. An operation is
  modelled by the list of the effects it performs, in order, together with the way its
  promise settles: \<open>Inr\<close> a value when it resolves, \<open>Inl\<close> the error when it rejects. What
  the environment answers (the result of each \<^verbatim>\<open>fetch\<close>, which calls of the secure store
  reject, the content of the store) is a parameter of the operation. Calls of
  \<^verbatim>\<open>console.log\<close> are left out; \<^verbatim>\<open>console.error\<close> is kept, as it marks every handler.
\<close>

datatype error = Error (message: string)

datatype json =
    JNull
  | JBool bool
  | JNum real
  | JStr string
  | JArr "json list"
  | JObj "(string \<times> json) list"

text \<open>
  An object literal given to \<^verbatim>\<open>JSON.stringify\<close>: a member whose value is \<^verbatim>\<open>undefined\<close>
  (\<open>None\<close>) is dropped.
\<close>

definition json_object :: "(string \<times> json option) list \<Rightarrow> json" where
  "json_object members = JObj (List.map_filter (\<lambda>(k, v). map_option (Pair k) v) members)"

datatype form_value = FormString string | FormFile (file_uri: string) (file_name: string) (file_type: string)

datatype request_body = NoBody | JsonBody json | FormData "(string \<times> form_value) list"

record request =
  http_method :: string
  url :: string
  headers :: "(string \<times> string) list"
  body :: request_body

record 'b response =
  status :: nat
  statusText :: string
  json_result :: "error + 'b"

text \<open>\<^verbatim>\<open>response.ok\<close>: the status is in the range 200 to 299.\<close>

definition ok :: "'b response \<Rightarrow> bool" where
  "ok r = (200 \<le> status r \<and> status r \<le> 299)"

text \<open>The promise of \<^verbatim>\<open>fetch\<close> rejects (no response at all) or resolves with a response.\<close>

datatype 'b fetch_result = Rejects error | Resolves "'b response"

record user =
  user_id :: string
  user_email :: string
  user_firstName :: string
  user_lastName :: string
  user_username :: string
  user_phoneNumber :: "string option"
  user_emergencyContact :: "string option"

record message =
  message_id :: string
  message_text :: string
  createdAt :: nat
  sender_id :: string
  sender_name :: string
  sender_avatar :: "string option"

record patient =
  patient_id :: string
  patient_name :: string
  patient_condition :: string
  patient_age :: real
  medical_history :: "string option"

record space =
  space_id :: string
  space_name :: string
  space_description :: "string option"
  patient_ids :: "string list option"
  created_at :: string
  updated_at :: string
  id_member :: "string option"

datatype view_value =
    VJson json
  | VString string
  | VStrings "string list"
  | VSpace space
  | VPatients "patient list"
  | VUser user

datatype event =
    SetFlag string bool
  | SetView string view_value
  | SetToken "string option"
  | SetUser "user option"
  | AppendMessages "message list"
  | Fetch request
  | Settled "nat option"
  | StoreSet string string
  | StoreDelete string
  | Alert string string
  | ConsoleError string
  | Navigate string
  | Spawn string

text \<open>
  The events: \<open>SetFlag\<close> is a boolean state setter (\<^verbatim>\<open>setIsLoading(true)\<close> is
  \<open>SetFlag ''setIsLoading'' True\<close>), \<open>SetView\<close> a setter of view data, \<open>Fetch\<close> the
  moment a request is issued and \<open>Settled\<close> the moment the awaited promise of that request
  settles (with the status of the response, or \<open>None\<close> when it rejects), \<open>StoreSet\<close> and
  \<open>StoreDelete\<close> a completed write to the secure store, \<open>Alert\<close> a call of
  \<^verbatim>\<open>Alert.alert\<close> with its title and message, \<open>Navigate\<close> a \<^verbatim>\<open>router.replace\<close>, and
  \<open>Spawn\<close> the call of another \<^verbatim>\<open>async\<close> function of the screen without \<^verbatim>\<open>await\<close>.
\<close>

type_synonym 'a proc = "event list \<times> (error + 'a)"

definition ret :: "'a \<Rightarrow> 'a proc" where
  "ret x = ([], Inr x)"

definition throw :: "error \<Rightarrow> 'a proc" where
  "throw e = ([], Inl e)"

definition emit :: "event \<Rightarrow> unit proc" where
  "emit ev = ([ev], Inr ())"

text \<open>\<open>await p k\<close>: run \<open>p\<close>; if it throws, so does the whole; otherwise continue with \<open>k\<close>.\<close>

definition await :: "'a proc \<Rightarrow> ('a \<Rightarrow> 'b proc) \<Rightarrow> 'b proc" where
  "await p k =
     (case p of
        (es, Inl e) \<Rightarrow> (es, Inl e)
      | (es, Inr x) \<Rightarrow> (case k x of (es', r) \<Rightarrow> (es @ es', r)))"

text \<open>A block of statements: the first one that throws ends the block.\<close>

fun seq :: "unit proc list \<Rightarrow> unit proc" where
  "seq [] = ret ()"
| "seq (p # ps) = await p (\<lambda>_. seq ps)"

text \<open>
  \<^verbatim>\<open>try { body } catch (error) { handler } finally { fin }\<close>: the handler runs when the
  body throws and may throw itself; the \<^verbatim>\<open>finally\<close> block runs in every case, and the
  statement settles as the body (or the handler) did unless the \<^verbatim>\<open>finally\<close> block throws.
\<close>

definition try_catch :: "'a proc \<Rightarrow> (error \<Rightarrow> 'a proc) \<Rightarrow> 'a proc" where
  "try_catch p handler =
     (case p of
        (es, Inl e) \<Rightarrow> (case handler e of (es', r) \<Rightarrow> (es @ es', r))
      | (es, Inr x) \<Rightarrow> (es, Inr x))"

definition try_finally :: "'a proc \<Rightarrow> unit proc \<Rightarrow> 'a proc" where
  "try_finally p fin =
     (case p of (es, r) \<Rightarrow>
        (case fin of
           (es', Inl e') \<Rightarrow> (es @ es', Inl e')
         | (es', Inr _) \<Rightarrow> (es @ es', r)))"

definition try_catch_finally :: "'a proc \<Rightarrow> (error \<Rightarrow> 'a proc) \<Rightarrow> unit proc \<Rightarrow> 'a proc" where
  "try_catch_finally p handler fin = try_finally (try_catch p handler) fin"

definition trace :: "'a proc \<Rightarrow> event list" where
  "trace p = fst p"

definition resolves :: "'a proc \<Rightarrow> bool" where
  "resolves p = (case snd p of Inl e \<Rightarrow> False | Inr x \<Rightarrow> True)"

text \<open>\<^verbatim>\<open>await fetch(url, options)\<close> and \<^verbatim>\<open>await response.json()\<close>.\<close>

definition fetch :: "request \<Rightarrow> 'b fetch_result \<Rightarrow> 'b response proc" where
  "fetch req result =
     (case result of
        Rejects e \<Rightarrow> ([Fetch req, Settled None], Inl e)
      | Resolves r \<Rightarrow> ([Fetch req, Settled (Some (status r))], Inr r))"

definition response_json :: "'b response \<Rightarrow> 'b proc" where
  "response_json r = ([], json_result r)"

text \<open>
  The secure store keeps strings under string keys. \<open>rejects\<close> tells which of its calls
  fail; a write that fails leaves the store as it was.
\<close>

datatype store_call = GetItem string | SetItem string | DeleteItem string

type_synonym secure_store = "string \<rightharpoonup> string"

definition getItemAsync :: "(store_call \<Rightarrow> bool) \<Rightarrow> secure_store \<Rightarrow> string \<Rightarrow> string option proc" where
  "getItemAsync rejects store key =
     (if rejects (GetItem key) then throw (Error ''SecureStore.getItemAsync failed'')
      else ret (store key))"

definition setItemAsync :: "(store_call \<Rightarrow> bool) \<Rightarrow> string \<Rightarrow> string \<Rightarrow> unit proc" where
  "setItemAsync rejects key v =
     (if rejects (SetItem key) then throw (Error ''SecureStore.setItemAsync failed'')
      else emit (StoreSet key v))"

definition deleteItemAsync :: "(store_call \<Rightarrow> bool) \<Rightarrow> string \<Rightarrow> unit proc" where
  "deleteItemAsync rejects key =
     (if rejects (DeleteItem key) then throw (Error ''SecureStore.deleteItemAsync failed'')
      else emit (StoreDelete key))"

text \<open>
  The regular-expression literals of the program, by the place where they are written:
  \<^item> \<open>EmailRegex\<close>: \<^verbatim>\<open>/^[^\s@]+@[^\s@]+\.[^\s@]+$/\<close> (sign-up and profile screens);
  \<^item> \<open>UsernameRegex\<close>: \<^verbatim>\<open>/^[a-zA-Z0-9_]+$/\<close> (sign-up screen);
  \<^item> \<open>PhoneRegex\<close>: \<^verbatim>\<open>/^\d{10}$/\<close>, \<open>NonDigits\<close>: \<^verbatim>\<open>/\D/g\<close> (profile screen);
  \<^item> \<open>FileExtension\<close>: \<^verbatim>\<open>/\.(\w+)$/\<close> (capture screen);
  \<^item> \<open>LeadingAsterisk\<close>: \<^verbatim>\<open>/^\s*\*\s+/gm\<close>, \<open>NewlineAsterisk\<close>: \<^verbatim>\<open>/\n\s*\*\s+/gm\<close>,
    \<open>BulletNoSpace\<close>: a bullet not followed by whitespace, with flag \<^verbatim>\<open>g\<close>,
    \<open>NumberNoSpace\<close>: \<^verbatim>\<open>/(\d+\.)(?!\s)/g\<close>, \<open>MarkdownHeader\<close>: \<^verbatim>\<open>/^#\s+(.+)$/gm\<close>,
    \<open>SentenceEnd\<close>: \<^verbatim>\<open>/([.:;!?])\n(?!\n)/g\<close>, \<open>NewlineTrailingAsterisk\<close>:
    \<^verbatim>\<open>/\n\*$/gm\<close>, \<open>TrailingAsterisk\<close>: \<^verbatim>\<open>/\*$/g\<close> (chat screen).
\<close>

datatype regex_literal =
    EmailRegex
  | UsernameRegex
  | PhoneRegex
  | NonDigits
  | FileExtension
  | LeadingAsterisk
  | NewlineAsterisk
  | BulletNoSpace
  | NumberNoSpace
  | MarkdownHeader
  | SentenceEnd
  | NewlineTrailingAsterisk
  | TrailingAsterisk

text \<open>
  Functions of the JavaScript platform that the program calls and that are not part of
  it: the JSON codec on user records, the regular-expression engine (\<^verbatim>\<open>test\<close>,
  \<^verbatim>\<open>replace\<close> with a replacement text, and the first group of \<^verbatim>\<open>exec\<close>, \<open>None\<close> when
  there is no match), and \<^verbatim>\<open>parseInt\<close>.
\<close>

record platform =
  JSON_stringify :: "user \<Rightarrow> string"
  JSON_parse :: "string \<Rightarrow> error + user"
  regex_test :: "regex_literal \<Rightarrow> string \<Rightarrow> bool"
  regex_replace :: "regex_literal \<Rightarrow> string \<Rightarrow> string \<Rightarrow> string"
  regex_group1 :: "regex_literal \<Rightarrow> string \<Rightarrow> string option"
  parseInt :: "string \<Rightarrow> json"

text \<open>Truthiness of a string or \<^verbatim>\<open>null\<close>, \<^verbatim>\<open>a || b\<close> on strings, and a template hole.\<close>

definition truthy :: "string option \<Rightarrow> bool" where
  "truthy s = (case s of None \<Rightarrow> False | Some x \<Rightarrow> x \<noteq> [])"

definition or_else :: "string option \<Rightarrow> string option \<Rightarrow> string option" where
  "or_else a b = (if truthy a then a else b)"

definition template :: "string option \<Rightarrow> string" where
  "template s = (case s of None \<Rightarrow> ''null'' | Some x \<Rightarrow> x)"

text \<open>The same for a route parameter, which is a string or \<^verbatim>\<open>undefined\<close>.\<close>

definition template_param :: "string option \<Rightarrow> string" where
  "template_param s = (case s of None \<Rightarrow> ''undefined'' | Some x \<Rightarrow> x)"

text \<open>
  Strings are strings of bytes; \<^verbatim>\<open>trim\<close> removes the white space of ASCII at both ends.
\<close>

definition is_whitespace :: "char \<Rightarrow> bool" where
  "is_whitespace c = (c \<in> set [CHR 0x09, CHR 0x0A, CHR 0x0B, CHR 0x0C, CHR 0x0D, CHR '' ''])"

definition trim :: "string \<Rightarrow> string" where
  "trim s = rev (dropWhile is_whitespace (rev (dropWhile is_whitespace s)))"

text \<open>\<^verbatim>\<open>String(n)\<close> for a status code, and the part of a URI after its last slash.\<close>

function show_nat :: "nat \<Rightarrow> string" where
  "show_nat n =
     (if n < 10 then [char_of (48 + n)]
      else show_nat (n div 10) @ [char_of (48 + n mod 10)])"
  by pat_completeness auto
termination
  by (relation "measure id") auto

declare show_nat.simps [simp del]

definition last_segment :: "string \<Rightarrow> string" where
  "last_segment s = rev (takeWhile (\<lambda>c. c \<noteq> CHR ''/'') (rev s))"

text \<open>The state that the events of a trace leave behind.\<close>

record app_state =
  st_user :: "user option"
  st_token :: "string option"
  st_flags :: "string \<rightharpoonup> bool"
  st_store :: secure_store

fun apply_event :: "app_state \<Rightarrow> event \<Rightarrow> app_state" where
  "apply_event s (SetFlag name b) = s\<lparr>st_flags := (st_flags s)(name \<mapsto> b)\<rparr>"
| "apply_event s (SetToken t) = s\<lparr>st_token := t\<rparr>"
| "apply_event s (SetUser u) = s\<lparr>st_user := u\<rparr>"
| "apply_event s (StoreSet key v) = s\<lparr>st_store := (st_store s)(key \<mapsto> v)\<rparr>"
| "apply_event s (StoreDelete key) = s\<lparr>st_store := (st_store s)(key := None)\<rparr>"
| "apply_event s _ = s"

definition state_after :: "app_state \<Rightarrow> event list \<Rightarrow> app_state" where
  "state_after s es = foldl apply_event s es"


section \<open>The authentication hook\<close>

text \<open>
  \<^verbatim>\<open>hooks/useAuth.tsx\<close>. The base URL is the constant of that file. The loading flag of
  the provider is written \<open>AuthProvider.setIsLoading\<close>, as several screens have a state
  variable \<^verbatim>\<open>isLoading\<close> of their own.
\<close>

definition AUTH_API_BASE_URL :: string where
  "AUTH_API_BASE_URL = ''https://2595-2603-8000-ba00-2aae-19d0-bb4a-f0eb-4b8f.ngrok-free.app''"

record login_response =
  access_token :: string
  token_type :: string

text \<open>The body of \<^verbatim>\<open>/user/me\<close>, with the members that \<^verbatim>\<open>signIn\<close> reads.\<close>

record user_data =
  me_id :: string
  me_email :: string
  me_username :: string
  me_first_name :: string
  me_last_name :: string
  me_phone_number :: "string option"
  me_emergency_contact :: "string option"

definition loadToken ::
  "platform \<Rightarrow> (store_call \<Rightarrow> bool) \<Rightarrow> secure_store \<Rightarrow> unit proc" where
  "loadToken pf rejects store =
     try_catch_finally
       (await (getItemAsync rejects store ''userToken'') (\<lambda>storedToken.
        await (getItemAsync rejects store ''userData'') (\<lambda>storedUser.
        if truthy storedToken \<and> truthy storedUser
        then seq [emit (SetToken storedToken),
                  await ([], JSON_parse pf (the storedUser)) (\<lambda>parsed. emit (SetUser (Some parsed)))]
        else ret ())))
       (\<lambda>error. emit (ConsoleError ''Failed to load auth token''))
       (emit (SetFlag ''AuthProvider.setIsLoading'' False))"

definition signIn ::
  "platform \<Rightarrow> (store_call \<Rightarrow> bool) \<Rightarrow> string \<Rightarrow> string \<Rightarrow>
   login_response fetch_result \<Rightarrow> user_data fetch_result \<Rightarrow> unit proc" where
  "signIn pf rejects username password loginResult meResult =
     try_catch_finally
       (await (emit (SetFlag ''AuthProvider.setIsLoading'' True)) (\<lambda>_.
        await (fetch \<lparr>http_method = ''POST'', url = AUTH_API_BASE_URL @ ''/user/login'',
                      headers = [(''Content-Type'', ''application/json'')],
                      body = JsonBody (json_object [(''username'', Some (JStr username)),
                                                    (''password'', Some (JStr password))])\<rparr>
                 loginResult) (\<lambda>response.
        await (if \<not> ok response then throw (Error ''Login failed'') else ret ()) (\<lambda>_.
        await (response_json response) (\<lambda>data.
        await (fetch \<lparr>http_method = ''GET'', url = AUTH_API_BASE_URL @ ''/user/me'',
                      headers = [(''Authorization'', ''Bearer '' @ access_token data)],
                      body = NoBody\<rparr>
                 meResult) (\<lambda>userResponse.
        await (if \<not> ok userResponse then throw (Error ''Failed to get user data'') else ret ()) (\<lambda>_.
        await (response_json userResponse) (\<lambda>userData.
        let formattedUser = \<lparr>user_id = me_id userData,
                             user_email = me_email userData,
                             user_firstName = me_first_name userData,
                             user_lastName = me_last_name userData,
                             user_username = me_username userData,
                             user_phoneNumber = me_phone_number userData,
                             user_emergencyContact = me_emergency_contact userData\<rparr>
        in seq [setItemAsync rejects ''userToken'' (access_token data),
                setItemAsync rejects ''userData'' (JSON_stringify pf formattedUser),
                emit (SetToken (Some (access_token data))),
                emit (SetUser (Some formattedUser))]))))))))
       (\<lambda>error. seq [emit (Alert ''Error'' ''Failed to sign in. Please check your credentials.''),
                     emit (ConsoleError (message error))])
       (emit (SetFlag ''AuthProvider.setIsLoading'' False))"

record sign_up_data =
  su_firstName :: string
  su_lastName :: string
  su_email :: string
  su_username :: string
  su_phoneNumber :: string
  su_password :: string

text \<open>
  The body of an error response of the backend: \<^verbatim>\<open>errorData.detail\<close>, when it is there.
\<close>

record error_data =
  detail :: "string option"

definition signUp :: "sign_up_data \<Rightarrow> error_data fetch_result \<Rightarrow> unit proc" where
  "signUp userData result =
     try_catch_finally
       (await (emit (SetFlag ''AuthProvider.setIsLoading'' True)) (\<lambda>_.
        let formattedData = json_object
              [(''username'', Some (JStr (su_username userData))),
               (''email'', Some (JStr (su_email userData))),
               (''password'', Some (JStr (su_password userData))),
               (''first_name'', Some (JStr (su_firstName userData))),
               (''last_name'', Some (JStr (su_lastName userData)))]
        in await (fetch \<lparr>http_method = ''POST'', url = AUTH_API_BASE_URL @ ''/user/register'',
                         headers = [(''Content-Type'', ''application/json'')],
                         body = JsonBody formattedData\<rparr> result) (\<lambda>response.
           if \<not> ok response
           then await (response_json response) (\<lambda>errorData.
                  throw (Error (the (or_else (detail errorData) (Some ''Registration failed'')))))
           else ret ())))
       (\<lambda>error. seq [emit (ConsoleError ''Sign up error:''),
                     emit (Alert ''Error'' (message error)),
                     throw error])
       (emit (SetFlag ''AuthProvider.setIsLoading'' False))"

record update_user_data =
  upd_email :: string
  upd_first_name :: "string option"
  upd_last_name :: "string option"
  upd_phone_number :: "string option"
  upd_emergency_contact :: "string option"

definition updateUserInfo ::
  "platform \<Rightarrow> (store_call \<Rightarrow> bool) \<Rightarrow> user option \<Rightarrow> string option \<Rightarrow>
   update_user_data \<Rightarrow> error_data fetch_result \<Rightarrow> unit proc" where
  "updateUserInfo pf rejects user_now token userData result =
     (case user_now of
        None \<Rightarrow> throw (Error ''User not authenticated'')
      | Some u \<Rightarrow>
          if \<not> truthy token then throw (Error ''User not authenticated'')
          else
            try_catch_finally
              (await (emit (SetFlag ''AuthProvider.setIsLoading'' True)) (\<lambda>_.
               await (fetch \<lparr>http_method = ''PUT'',
                             url = AUTH_API_BASE_URL @ ''/user/'' @ user_id u @ ''/update'',
                             headers = [(''Content-Type'', ''application/json''),
                                        (''Authorization'', ''Bearer '' @ template token)],
                             body = JsonBody (json_object
                               [(''email'', Some (JStr (upd_email userData))),
                                (''first_name'', map_option JStr (upd_first_name userData)),
                                (''last_name'', map_option JStr (upd_last_name userData)),
                                (''phone_number'', map_option JStr (upd_phone_number userData)),
                                (''emergency_contact'',
                                   map_option JStr (upd_emergency_contact userData))])\<rparr>
                        result) (\<lambda>response.
               await (if \<not> ok response
                      then await (response_json response) (\<lambda>errorData.
                             throw (Error (the (or_else (detail errorData) (Some ''Update failed'')))))
                      else ret ()) (\<lambda>_.
               let updatedUser = u\<lparr>user_email := upd_email userData,
                                    user_firstName := the (or_else (upd_first_name userData)
                                                            (Some (user_firstName u))),
                                    user_lastName := the (or_else (upd_last_name userData)
                                                           (Some (user_lastName u))),
                                    user_phoneNumber := upd_phone_number userData,
                                    user_emergencyContact := upd_emergency_contact userData\<rparr>
               in seq [setItemAsync rejects ''userData'' (JSON_stringify pf updatedUser),
                       emit (SetUser (Some updatedUser))]))))
              (\<lambda>error. seq [emit (ConsoleError ''Update user error:''), throw error])
              (emit (SetFlag ''AuthProvider.setIsLoading'' False)))"

definition signOut :: "(store_call \<Rightarrow> bool) \<Rightarrow> unit proc" where
  "signOut rejects =
     try_catch_finally
       (seq [emit (SetFlag ''AuthProvider.setIsLoading'' True),
             deleteItemAsync rejects ''userToken'',
             deleteItemAsync rejects ''userData'',
             emit (SetToken None),
             emit (SetUser None)])
       (\<lambda>error. emit (ConsoleError ''Error signing out''))
       (emit (SetFlag ''AuthProvider.setIsLoading'' False))"


section \<open>The login screen\<close>

text \<open>\<^verbatim>\<open>handleLogin\<close> of \<^verbatim>\<open>app/(auth)/login.tsx\<close>.\<close>

definition handleLogin ::
  "platform \<Rightarrow> (store_call \<Rightarrow> bool) \<Rightarrow> string \<Rightarrow> string \<Rightarrow>
   login_response fetch_result \<Rightarrow> user_data fetch_result \<Rightarrow> unit proc" where
  "handleLogin pf rejects username password loginResult meResult =
     (if trim username = [] \<or> trim password = []
      then emit (Alert ''Error'' ''Please enter both username and password'')
      else
        try_catch_finally
          (seq [emit (SetFlag ''setIsSubmitting'' True),
                signIn pf rejects username password loginResult meResult,
                emit (Navigate ''/tabs'')])
          (\<lambda>error. emit (ConsoleError ''Login error:''))
          (emit (SetFlag ''setIsSubmitting'' False)))"


section \<open>The home screen\<close>

text \<open>
  \<^verbatim>\<open>fetchSpaces\<close> of the home screen. \<^verbatim>\<open>app/tabs/index.tsx\<close> writes the base URL as the
  constant of the authentication hook; the later version of the screen, which also lists
  patients, reads it from the configuration. The body of the configuration file is not
  part of the sources, so \<open>API_BASE_URL\<close> is a parameter of every screen.
\<close>

definition fetchSpaces ::
  "string \<Rightarrow> string option \<Rightarrow> user option \<Rightarrow> json fetch_result \<Rightarrow> unit proc" where
  "fetchSpaces API_BASE_URL token user_now result =
     (case user_now of
        None \<Rightarrow> ret ()
      | Some u \<Rightarrow>
          if \<not> truthy token then ret ()
          else
            try_catch_finally
              (await (emit (SetFlag ''setIsLoading'' True)) (\<lambda>_.
               await (fetch \<lparr>http_method = ''GET'',
                             url = API_BASE_URL @ ''/space/user/'' @ user_id u,
                             headers = [(''Authorization'', ''Bearer '' @ template token)],
                             body = NoBody\<rparr> result) (\<lambda>response.
               await (if \<not> ok response then throw (Error ''Failed to fetch spaces'')
                      else ret ()) (\<lambda>_.
               await (response_json response) (\<lambda>data.
               emit (SetView ''setSpaces'' (VJson data)))))))
              (\<lambda>error. seq [emit (ConsoleError ''Error fetching spaces:''),
                            emit (Alert ''Error''
                              ''Failed to load your spaces. Please try again later.'')])
              (emit (SetFlag ''setIsLoading'' False)))"

definition home_fetchPatients ::
  "string \<Rightarrow> string option \<Rightarrow> user option \<Rightarrow> json fetch_result \<Rightarrow> unit proc" where
  "home_fetchPatients API_BASE_URL token user_now result =
     (if \<not> truthy token \<or> user_now = None then ret ()
      else
        try_catch_finally
          (await (emit (SetFlag ''setIsLoading'' True)) (\<lambda>_.
           await (fetch \<lparr>http_method = ''GET'', url = API_BASE_URL @ ''/patient'',
                         headers = [(''Authorization'', ''Bearer '' @ template token)],
                         body = NoBody\<rparr> result) (\<lambda>response.
           await (if \<not> ok response then throw (Error ''Failed to fetch patients'')
                  else ret ()) (\<lambda>_.
           await (response_json response) (\<lambda>data.
           emit (SetView ''setPatients'' (VJson data)))))))
          (\<lambda>error. seq [emit (ConsoleError ''Error fetching patients:''),
                        emit (Alert ''Error''
                          ''Failed to load your patients. Please try again later.'')])
          (emit (SetFlag ''setIsLoading'' False)))"

text \<open>
  \<^verbatim>\<open>handleDeletePatient\<close> asks for confirmation; the request is issued by the
  \<^verbatim>\<open>onPress\<close> callback of the button \<^verbatim>\<open>Delete\<close> of that alert.
\<close>

definition handleDeletePatient :: "string option \<Rightarrow> unit proc" where
  "handleDeletePatient token =
     (if \<not> truthy token then ret ()
      else emit (Alert ''Confirm Delete'' ''Are you sure you want to remove this patient?''))"

definition handleDeletePatient_onPress ::
  "string \<Rightarrow> string option \<Rightarrow> string \<Rightarrow> json fetch_result \<Rightarrow> unit proc" where
  "handleDeletePatient_onPress API_BASE_URL token patientId result =
     try_catch
       (await (fetch \<lparr>http_method = ''DELETE'', url = API_BASE_URL @ ''/patient/'' @ patientId,
                      headers = [(''Authorization'', ''Bearer '' @ template token)],
                      body = NoBody\<rparr> result) (\<lambda>response.
        seq [if \<not> ok response then throw (Error ''Failed to delete patient'') else ret (),
             emit (Spawn ''fetchPatients''),
             emit (SetFlag ''setIsPatientModalVisible'' False),
             emit (Alert ''Success'' ''Patient removed successfully'')]))
       (\<lambda>error. seq [emit (ConsoleError ''Error deleting patient:''),
                     emit (Alert ''Error''
                       ''Failed to delete patient. Please try again later.'')])"

definition handleSavePatient ::
  "platform \<Rightarrow> string \<Rightarrow> string option \<Rightarrow> patient option \<Rightarrow>
   string \<Rightarrow> string \<Rightarrow> string \<Rightarrow> string \<Rightarrow> json fetch_result \<Rightarrow> unit proc" where
  "handleSavePatient pf API_BASE_URL token currentPatient
       patientName patientCondition patientAge medicalHistory result =
     (if \<not> truthy token \<or> trim patientName = [] \<or> trim patientCondition = []
         \<or> trim patientAge = []
      then emit (Alert ''Error'' ''Name, condition and age are required'')
      else
        try_catch
          (let patientData = json_object
                 [(''patient_name'', Some (JStr (trim patientName))),
                  (''patient_condition'', Some (JStr (trim patientCondition))),
                  (''patient_age'', Some (parseInt pf patientAge)),
                  (''medical_history'',
                     map_option JStr (or_else (Some (trim medicalHistory)) None))]
           in await
                (case currentPatient of
                   Some p \<Rightarrow>
                     fetch \<lparr>http_method = ''PUT'', url = API_BASE_URL @ ''/patient/'' @ patient_id p,
                            headers = [(''Authorization'', ''Bearer '' @ template token),
                                       (''Content-Type'', ''application/json'')],
                            body = JsonBody patientData\<rparr> result
                 | None \<Rightarrow>
                     fetch \<lparr>http_method = ''POST'', url = API_BASE_URL @ ''/patient'',
                            headers = [(''Authorization'', ''Bearer '' @ template token),
                                       (''Content-Type'', ''application/json'')],
                            body = JsonBody patientData\<rparr> result)
                (\<lambda>response.
                 seq [if \<not> ok response then throw (Error ''Failed to save patient'') else ret (),
                      emit (SetFlag ''setIsPatientModalVisible'' False),
                      emit (Spawn ''fetchPatients''),
                      emit (Alert ''Success''
                        (if currentPatient \<noteq> None then ''Patient updated successfully''
                         else ''Patient added successfully''))]))
          (\<lambda>error. seq [emit (ConsoleError ''Error saving patient:''),
                        emit (Alert ''Error''
                          ''Failed to save patient. Please try again later.'')]))"


section \<open>The space-details screen\<close>

text \<open>
  \<^verbatim>\<open>app/space/log.tsx\<close>: the space and its logs are shown as they come.
\<close>

definition fetchSpaceDetails ::
  "string \<Rightarrow> string option \<Rightarrow> string option \<Rightarrow>
   json fetch_result \<Rightarrow> json fetch_result \<Rightarrow> unit proc" where
  "fetchSpaceDetails API_BASE_URL token id' spaceResult logsResult =
     (if \<not> truthy token \<or> \<not> truthy id' then ret ()
      else
        try_catch_finally
          (await (emit (SetFlag ''setLoading'' True)) (\<lambda>_.
           await (fetch \<lparr>http_method = ''GET'', url = API_BASE_URL @ ''/space/'' @ template_param id',
                         headers = [(''Authorization'', ''Bearer '' @ template token)],
                         body = NoBody\<rparr> spaceResult) (\<lambda>spaceResponse.
           await (if \<not> ok spaceResponse then throw (Error ''Failed to fetch space details'')
                  else ret ()) (\<lambda>_.
           await (response_json spaceResponse) (\<lambda>spaceData.
           await (emit (SetView ''setSpace'' (VJson spaceData))) (\<lambda>_.
           await (fetch \<lparr>http_method = ''GET'',
                         url = API_BASE_URL @ ''/space/logs/space/'' @ template_param id',
                         headers = [(''Authorization'', ''Bearer '' @ template token)],
                         body = NoBody\<rparr> logsResult) (\<lambda>logsResponse.
           await (if \<not> ok logsResponse then throw (Error ''Failed to fetch space logs'')
                  else ret ()) (\<lambda>_.
           await (response_json logsResponse) (\<lambda>logsData.
           emit (SetView ''setLogs'' (VJson logsData)))))))))))
          (\<lambda>error. seq [emit (ConsoleError ''Error fetching space details:''),
                        emit (Alert ''Error''
                          ''Failed to load space details. Please try again later.'')])
          (emit (SetFlag ''setLoading'' False)))"

text \<open>
  The later version of the screen, with the patients of the space and the edit dialog.
  Its \<^verbatim>\<open>fetchPatients\<close> has no loading flag and handles its own errors; \<open>space_state\<close> is
  the state variable \<^verbatim>\<open>space\<close> that its closure holds.
\<close>

definition details_fetchPatients ::
  "string \<Rightarrow> string option \<Rightarrow> space option \<Rightarrow> space option \<Rightarrow>
   patient list fetch_result \<Rightarrow> unit proc" where
  "details_fetchPatients API_BASE_URL token space_state spaceData result =
     (if \<not> truthy token then ret ()
      else
        try_catch
          (await (fetch \<lparr>http_method = ''GET'', url = API_BASE_URL @ ''/patient'',
                         headers = [(''Authorization'', ''Bearer '' @ template token)],
                         body = NoBody\<rparr> result) (\<lambda>allPatientsResponse.
           await (if \<not> ok allPatientsResponse then throw (Error ''Failed to fetch patients'')
                  else ret ()) (\<lambda>_.
           await (response_json allPatientsResponse) (\<lambda>allPatientsData.
           await (emit (SetView ''setAllPatients'' (VPatients allPatientsData))) (\<lambda>_.
           let currentSpace = (case spaceData of Some sd \<Rightarrow> Some sd | None \<Rightarrow> space_state)
           in case currentSpace of
                None \<Rightarrow> emit (SetView ''setSpacePatients'' (VPatients []))
              | Some cs \<Rightarrow>
                  (case patient_ids cs of
                     None \<Rightarrow> emit (SetView ''setSpacePatients'' (VPatients []))
                   | Some ids \<Rightarrow>
                       if length ids > 0
                       then emit (SetView ''setSpacePatients''
                              (VPatients (filter (\<lambda>p. patient_id p \<in> set ids) allPatientsData)))
                       else emit (SetView ''setSpacePatients'' (VPatients []))))))))
          (\<lambda>error. seq [emit (ConsoleError ''Error fetching patients:''),
                        emit (Alert ''Error''
                          ''Failed to load patients. Please try again later.'')]))"

definition details_fetchSpaceDetails ::
  "string \<Rightarrow> string option \<Rightarrow> string option \<Rightarrow> space option \<Rightarrow>
   space fetch_result \<Rightarrow> json fetch_result \<Rightarrow> patient list fetch_result \<Rightarrow> unit proc" where
  "details_fetchSpaceDetails API_BASE_URL token id' space_state
       spaceResult logsResult patientsResult =
     (if \<not> truthy token \<or> \<not> truthy id' then ret ()
      else
        try_catch_finally
          (await (emit (SetFlag ''setLoading'' True)) (\<lambda>_.
           await (fetch \<lparr>http_method = ''GET'', url = API_BASE_URL @ ''/space/'' @ template_param id',
                         headers = [(''Authorization'', ''Bearer '' @ template token)],
                         body = NoBody\<rparr> spaceResult) (\<lambda>spaceResponse.
           await (if \<not> ok spaceResponse then throw (Error ''Failed to fetch space details'')
                  else ret ()) (\<lambda>_.
           await (response_json spaceResponse) (\<lambda>spaceJson.
           let spaceData = spaceJson\<lparr>id_member := id'\<rparr>
           in
           await (seq [emit (SetView ''setSpace'' (VSpace spaceData)),
                       emit (SetView ''setSpaceName'' (VString (space_name spaceData))),
                       emit (SetView ''setSpaceDescription''
                         (VString (the (or_else (space_description spaceData) (Some ''''))))),
                       emit (SetView ''setSelectedPatientIds''
                         (VStrings (case patient_ids spaceData of Some ids \<Rightarrow> ids | None \<Rightarrow> [])))])
             (\<lambda>_.
           await (fetch \<lparr>http_method = ''GET'',
                         url = API_BASE_URL @ ''/space/logs/space/'' @ template_param id',
                         headers = [(''Authorization'', ''Bearer '' @ template token)],
                         body = NoBody\<rparr> logsResult) (\<lambda>logsResponse.
           await (if \<not> ok logsResponse then throw (Error ''Failed to fetch space logs'')
                  else ret ()) (\<lambda>_.
           await (response_json logsResponse) (\<lambda>logsData.
           await (emit (SetView ''setLogs'' (VJson logsData))) (\<lambda>_.
           details_fetchPatients API_BASE_URL token space_state (Some spaceData)
             patientsResult))))))))))
          (\<lambda>error. seq [emit (ConsoleError ''Error fetching space details:''),
                        emit (Alert ''Error''
                          ''Failed to load space details. Please try again later.'')])
          (seq [emit (SetFlag ''setLoading'' False), emit (SetFlag ''setRefreshing'' False)]))"

definition handleSaveSpace ::
  "string \<Rightarrow> string option \<Rightarrow> string option \<Rightarrow> string \<Rightarrow> string \<Rightarrow> string list \<Rightarrow>
   json fetch_result \<Rightarrow> unit proc" where
  "handleSaveSpace API_BASE_URL token id' spaceName spaceDescription selectedPatientIds result =
     (if \<not> truthy token \<or> \<not> truthy id' \<or> trim spaceName = []
      then emit (Alert ''Error'' ''Space name is required'')
      else
        try_catch
          (let spaceData = json_object
                 [(''space_name'', Some (JStr (trim spaceName))),
                  (''description'',
                     map_option JStr (or_else (Some (trim spaceDescription)) None)),
                  (''patient_ids'', Some (JArr (map JStr selectedPatientIds)))]
           in await (fetch \<lparr>http_method = ''PUT'',
                            url = API_BASE_URL @ ''/space/'' @ template_param id',
                            headers = [(''Authorization'', ''Bearer '' @ template token),
                                       (''Content-Type'', ''application/json'')],
                            body = JsonBody spaceData\<rparr> result) (\<lambda>response.
              seq [if \<not> ok response then throw (Error ''Failed to update space'') else ret (),
                   emit (SetFlag ''setIsEditModalVisible'' False),
                   emit (Spawn ''fetchSpaceDetails''),
                   emit (Alert ''Success'' ''Space updated successfully'')]))
          (\<lambda>error. seq [emit (ConsoleError ''Error updating space:''),
                        emit (Alert ''Error''
                          ''Failed to update space. Please try again later.'')]))"

definition handleDeleteSpace :: "string option \<Rightarrow> string option \<Rightarrow> unit proc" where
  "handleDeleteSpace token id' =
     (if \<not> truthy token \<or> \<not> truthy id'
      then emit (Alert ''Error'' ''Authorization required'')
      else emit (Alert ''Confirm Delete''
             ''Are you sure you want to delete this space? This action cannot be undone.''))"

definition handleDeleteSpace_onPress ::
  "string \<Rightarrow> string option \<Rightarrow> string option \<Rightarrow> json fetch_result \<Rightarrow> unit proc" where
  "handleDeleteSpace_onPress API_BASE_URL token id' result =
     try_catch
       (await (fetch \<lparr>http_method = ''DELETE'',
                      url = API_BASE_URL @ ''/space/'' @ template_param id',
                      headers = [(''Authorization'', ''Bearer '' @ template token)],
                      body = NoBody\<rparr> result) (\<lambda>response.
        seq [if \<not> ok response then throw (Error ''Failed to delete space'') else ret (),
             emit (SetFlag ''setIsEditModalVisible'' False),
             emit (Navigate ''/tabs''),
             emit (Alert ''Success'' ''Space deleted successfully'')]))
       (\<lambda>error. seq [emit (ConsoleError ''Error deleting space:''),
                     emit (Alert ''Error''
                       ''Failed to delete space. Please try again later.'')])"


section \<open>The assessment-details screen\<close>

definition fetchLogDetails ::
  "string \<Rightarrow> string option \<Rightarrow> string option \<Rightarrow> json fetch_result \<Rightarrow> unit proc" where
  "fetchLogDetails API_BASE_URL token logId result =
     (if \<not> truthy token \<or> \<not> truthy logId then ret ()
      else
        try_catch_finally
          (await (emit (SetFlag ''setLoading'' True)) (\<lambda>_.
           await (fetch \<lparr>http_method = ''GET'',
                         url = API_BASE_URL @ ''/space/logs/'' @ template_param logId,
                         headers = [(''Authorization'', ''Bearer '' @ template token)],
                         body = NoBody\<rparr> result) (\<lambda>logResponse.
           await (if \<not> ok logResponse then throw (Error ''Failed to fetch log details'')
                  else ret ()) (\<lambda>_.
           await (response_json logResponse) (\<lambda>logData.
           emit (SetView ''setLog'' (VJson logData)))))))
          (\<lambda>error. seq [emit (ConsoleError ''Error fetching log details:''),
                        emit (Alert ''Error''
                          ''Failed to load assessment details. Please try again later.'')])
          (emit (SetFlag ''setLoading'' False)))"


section \<open>The add-space screen\<close>

definition add_fetchPatients ::
  "string \<Rightarrow> string option \<Rightarrow> json fetch_result \<Rightarrow> unit proc" where
  "add_fetchPatients API_BASE_URL token result =
     (if \<not> truthy token then ret ()
      else
        try_catch_finally
          (await (emit (SetFlag ''setLoadingPatients'' True)) (\<lambda>_.
           await (fetch \<lparr>http_method = ''GET'', url = API_BASE_URL @ ''/patient'',
                         headers = [(''Authorization'', ''Bearer '' @ template token)],
                         body = NoBody\<rparr> result) (\<lambda>allPatientsResponse.
           await (if \<not> ok allPatientsResponse then throw (Error ''Failed to fetch patients'')
                  else ret ()) (\<lambda>_.
           await (response_json allPatientsResponse) (\<lambda>allPatientsData.
           emit (SetView ''setAllPatients'' (VJson allPatientsData)))))))
          (\<lambda>error. seq [emit (ConsoleError ''Error fetching patients:''),
                        emit (Alert ''Error''
                          ''Failed to load patients. Please try again later.'')])
          (emit (SetFlag ''setLoadingPatients'' False)))"

text \<open>
  \<^verbatim>\<open>handleSubmit\<close> of \<^verbatim>\<open>app/space/add.tsx\<close>. The body of the response is read as the
  error data when the status is not in the 2xx range and is read, and not used, when it
  is. (\<^verbatim>\<open>dismissKeyboard\<close>, which only closes the keyboard, is left out.)
\<close>

definition handleSubmit ::
  "string \<Rightarrow> string option \<Rightarrow> user option \<Rightarrow> string \<Rightarrow> string \<Rightarrow> string list \<Rightarrow>
   error_data fetch_result \<Rightarrow> unit proc" where
  "handleSubmit API_BASE_URL token user_now spaceName description selectedPatientIds result =
     (if trim spaceName = []
      then emit (Alert ''Error'' ''Please enter a name for your space'')
      else if \<not> truthy token \<or> user_now = None
      then emit (Alert ''Error'' ''You need to be logged in to create a space'')
      else
        try_catch_finally
          (await (emit (SetFlag ''setIsLoading'' True)) (\<lambda>_.
           await (fetch \<lparr>http_method = ''POST'', url = API_BASE_URL @ ''/space/create'',
                         headers = [(''Content-Type'', ''application/json''),
                                    (''Authorization'', ''Bearer '' @ template token)],
                         body = JsonBody (json_object
                           [(''space_name'', Some (JStr spaceName)),
                            (''description'',
                               map_option JStr (or_else (Some (trim description)) None)),
                            (''patient_ids'',
                               if length selectedPatientIds > 0
                               then Some (JArr (map JStr selectedPatientIds)) else None)])\<rparr>
                    result) (\<lambda>response.
           await (if \<not> ok response
                  then await (response_json response) (\<lambda>errorData.
                         throw (Error (the (or_else (detail errorData)
                                              (Some ''Failed to create space'')))))
                  else ret ()) (\<lambda>_.
           await (response_json response) (\<lambda>data.
           emit (Alert ''Success''
                  (''Space '' @ [CHR 0x22] @ spaceName @ [CHR 0x22] @ '' created successfully!'')))))))
          (\<lambda>error. seq [emit (ConsoleError ''Error creating space:''),
                        emit (Alert ''Error'' (message error))])
          (emit (SetFlag ''setIsLoading'' False)))"

text \<open>
  The earlier version of the screen, without the patient selection: only the body of the
  request differs.
\<close>

definition handleSubmit_without_patients ::
  "string \<Rightarrow> string option \<Rightarrow> user option \<Rightarrow> string \<Rightarrow> string \<Rightarrow>
   error_data fetch_result \<Rightarrow> unit proc" where
  "handleSubmit_without_patients API_BASE_URL token user_now spaceName description result =
     (if trim spaceName = []
      then emit (Alert ''Error'' ''Please enter a name for your space'')
      else
        case user_now of
          None \<Rightarrow> emit (Alert ''Error'' ''You need to be logged in to create a space'')
        | Some u \<Rightarrow>
            if \<not> truthy token
            then emit (Alert ''Error'' ''You need to be logged in to create a space'')
            else
              try_catch_finally
                (await (emit (SetFlag ''setIsLoading'' True)) (\<lambda>_.
                 await (fetch \<lparr>http_method = ''POST'', url = API_BASE_URL @ ''/space/create'',
                               headers = [(''Content-Type'', ''application/json''),
                                          (''Authorization'', ''Bearer '' @ template token)],
                               body = JsonBody (json_object
                                 [(''space_name'', Some (JStr spaceName)),
                                  (''user_id'', Some (JStr (user_id u))),
                                  (''description'',
                                     map_option JStr (or_else (Some (trim description)) None))])\<rparr>
                          result) (\<lambda>response.
                 await (if \<not> ok response
                        then await (response_json response) (\<lambda>errorData.
                               throw (Error (the (or_else (detail errorData)
                                                    (Some ''Failed to create space'')))))
                        else ret ()) (\<lambda>_.
                 await (response_json response) (\<lambda>data.
                 emit (Alert ''Success''
                        (''Space '' @ [CHR 0x22] @ spaceName @ [CHR 0x22]
                           @ '' created successfully!'')))))))
                (\<lambda>error. seq [emit (ConsoleError ''Error creating space:''),
                              emit (Alert ''Error'' (message error))])
                (emit (SetFlag ''setIsLoading'' False)))"


section \<open>The capture screen\<close>

text \<open>
  The version of the capture screen that creates the assessment itself: \<^verbatim>\<open>uploadImage\<close>
  calls \<^verbatim>\<open>generateMockAnalysis\<close> and posts its result with the image to
  \<^verbatim>\<open>/space/logs/create\<close>. The flag \<^verbatim>\<open>uploading\<close> is set before the \<^verbatim>\<open>try\<close> statement.
\<close>

definition json_of_strings :: "string option list \<Rightarrow> json" where
  "json_of_strings xs = JArr (map (\<lambda>x. case x of None \<Rightarrow> JNull | Some s \<Rightarrow> JStr s) xs)"

definition json_of_object :: "detected_object \<Rightarrow> json" where
  "json_of_object obj =
     JObj [(''type'', JStr (object_type obj)),
           (''confidence'', JNum (confidence obj)),
           (''bbox'', JArr (map (\<lambda>n. JNum (real_of_int n)) (bbox obj)))]"

definition mock_payload :: "string \<Rightarrow> string \<Rightarrow> string option \<Rightarrow> mock_analysis \<Rightarrow> json" where
  "mock_payload spaceId image' spaceName mockAnalysis =
     JObj [(''space_id'', JStr spaceId),
           (''image_data'', JStr image'),
           (''score'', JNum (real_of_int (score mockAnalysis))),
           (''bounding_box_info'',
              JObj [(''objects'', JArr (map json_of_object (bounding_box_info mockAnalysis)))]),
           (''recommendations'', json_of_strings (recommendations mockAnalysis)),
           (''hazard_list'',
              JObj [(''high_priority'', json_of_strings (high_priority (hazards mockAnalysis))),
                    (''medium_priority'',
                       json_of_strings (medium_priority (hazards mockAnalysis))),
                    (''low_priority'', json_of_strings (low_priority (hazards mockAnalysis)))]),
           (''comments'', JStr (''Safety assessment for '' @ template_param spaceName))]"

definition mock_uploadImage ::
  "string \<Rightarrow> rng \<Rightarrow> string option \<Rightarrow> string option \<Rightarrow> string option \<Rightarrow> string option \<Rightarrow>
   json fetch_result \<Rightarrow> unit proc" where
  "mock_uploadImage API_BASE_URL rnd token image' spaceId spaceName result =
     (if \<not> truthy image' \<or> \<not> truthy spaceId \<or> \<not> truthy token
      then emit (Alert ''Error'' ''Missing image data or space information'')
      else
        await (emit (SetFlag ''setUploading'' True)) (\<lambda>_.
        try_catch_finally
          (let mockAnalysis = generateMockAnalysis rnd;
               payload = mock_payload (template_param spaceId) (template image') spaceName
                           mockAnalysis
           in await (fetch \<lparr>http_method = ''POST'', url = API_BASE_URL @ ''/space/logs/create'',
                            headers = [(''Content-Type'', ''application/json''),
                                       (''Authorization'', ''Bearer '' @ template token)],
                            body = JsonBody payload\<rparr> result) (\<lambda>response.
              seq [if \<not> ok response
                   then throw (Error ''Failed to upload image and create assessment'')
                   else ret (),
                   emit (Alert ''Success'' ''Safety assessment created successfully!'')]))
          (\<lambda>error. seq [emit (ConsoleError ''Error uploading image:''),
                        emit (Alert ''Error''
                          ''Failed to upload image and create assessment. Please try again.'')])
          (emit (SetFlag ''setUploading'' False))))"

text \<open>
  The version that leaves the analysis to the backend: \<^verbatim>\<open>performUpload\<close> posts the id of
  the space and the image file, as multipart form data, to \<^verbatim>\<open>/space/logs/upload-image\<close>.
  \<^verbatim>\<open>response.text()\<close> is read with a fallback, so it never throws.
\<close>

definition performUpload ::
  "platform \<Rightarrow> string \<Rightarrow> string option \<Rightarrow> string \<Rightarrow> string \<Rightarrow> json fetch_result \<Rightarrow> unit proc" where
  "performUpload pf API_BASE_URL token imageUri id' result =
     await (emit (SetFlag ''setUploading'' True)) (\<lambda>_.
     try_catch_finally
       (let fileName = the (or_else (Some (last_segment imageUri)) (Some ''image.jpg''));
            type = (case regex_group1 pf FileExtension fileName of
                      Some ext \<Rightarrow> ''image/'' @ ext
                    | None \<Rightarrow> ''image/jpeg'');
            formData = [(''space_id'', FormString id'),
                        (''image'', FormFile imageUri fileName type)]
        in await (fetch \<lparr>http_method = ''POST'', url = API_BASE_URL @ ''/space/logs/upload-image'',
                         headers = [(''Authorization'', ''Bearer '' @ template token)],
                         body = FormData formData\<rparr> result) (\<lambda>response.
           seq [if \<not> ok response
                then seq [emit (ConsoleError ''Server error:''),
                          throw (Error (''Failed to upload image: '' @ show_nat (status response)
                                          @ '' '' @ statusText response))]
                else ret (),
                emit (Alert ''Success'' ''Image uploaded successfully!'')]))
       (\<lambda>error. seq [emit (ConsoleError ''Error uploading image:''),
                     emit (Alert ''Error'' ''Failed to upload image. Please try again.'')])
       (emit (SetFlag ''setUploading'' False)))"

text \<open>
  \<^verbatim>\<open>uploadImage\<close> of that version. The id of the space is the first truthy one of three
  route parameters. Without it the user may still continue: the button
  \<^verbatim>\<open>Continue Anyway\<close> calls \<^verbatim>\<open>performUpload('test-space-123')\<close>.
\<close>

definition capture_spaceId ::
  "string option \<Rightarrow> string option \<Rightarrow> string option \<Rightarrow> string option" where
  "capture_spaceId p_spaceId p_spaceid p_space_id = or_else (or_else p_spaceId p_spaceid) p_space_id"

definition uploadImage ::
  "platform \<Rightarrow> string \<Rightarrow> string option \<Rightarrow> string option \<Rightarrow> string option \<Rightarrow>
   json fetch_result \<Rightarrow> unit proc" where
  "uploadImage pf API_BASE_URL token imageUri spaceId result =
     (if \<not> truthy imageUri
      then emit (Alert ''Error'' ''Please select or capture an image first'')
      else if \<not> truthy spaceId
      then emit (Alert ''Missing Space ID''
             ''No space ID was found. Do you want to continue with a test upload?'')
      else if \<not> truthy token
      then emit (Alert ''Error'' ''You are not authenticated. Please log in again.'')
      else performUpload pf API_BASE_URL token (template imageUri) (template_param spaceId) result)"

definition uploadImage_continue_anyway ::
  "platform \<Rightarrow> string \<Rightarrow> string option \<Rightarrow> string \<Rightarrow> json fetch_result \<Rightarrow> unit proc" where
  "uploadImage_continue_anyway pf API_BASE_URL token imageUri result =
     performUpload pf API_BASE_URL token imageUri ''test-space-123'' result"


section \<open>The sign-up and profile screens\<close>

definition handleSignUp ::
  "platform \<Rightarrow> string \<Rightarrow> string \<Rightarrow> string \<Rightarrow> string \<Rightarrow> string \<Rightarrow> string \<Rightarrow>
   error_data fetch_result \<Rightarrow> unit proc" where
  "handleSignUp pf firstName lastName username email phoneNumber password result =
     (if trim firstName = [] \<or> trim lastName = [] \<or> trim username = []
         \<or> trim email = [] \<or> trim password = []
      then emit (Alert ''Error'' ''Please fill in all required fields'')
      else if \<not> regex_test pf EmailRegex email
      then emit (Alert ''Error'' ''Please enter a valid email address'')
      else if \<not> regex_test pf UsernameRegex username
      then emit (Alert ''Error'' ''Username can only contain letters, numbers, and underscores'')
      else if length password < 6
      then emit (Alert ''Error'' ''Password must be at least 6 characters long'')
      else
        try_catch_finally
          (seq [emit (SetFlag ''setIsSubmitting'' True),
                signUp \<lparr>su_firstName = firstName, su_lastName = lastName, su_email = email,
                        su_username = username, su_phoneNumber = phoneNumber,
                        su_password = password\<rparr> result,
                emit (Alert ''Success''
                  ''Your account has been created! Please login with your credentials.'')])
          (\<lambda>error. emit (ConsoleError ''Sign up error:''))
          (emit (SetFlag ''setIsSubmitting'' False)))"

record profile_form =
  form_email :: string
  form_firstName :: string
  form_lastName :: string
  form_phoneNumber :: string
  form_emergencyContact :: string

definition validateEmail :: "platform \<Rightarrow> string \<Rightarrow> bool" where
  "validateEmail pf email = regex_test pf EmailRegex email"

definition validatePhone :: "platform \<Rightarrow> string \<Rightarrow> bool" where
  "validatePhone pf phone =
     (if phone = [] then True
      else regex_test pf PhoneRegex (regex_replace pf NonDigits '''' phone))"

text \<open>\<^verbatim>\<open>validateForm\<close> returns the errors it found; the form is valid when there is none.\<close>

definition validateForm :: "platform \<Rightarrow> profile_form \<Rightarrow> (string \<times> string) list" where
  "validateForm pf formData =
     (if form_email formData = [] then [(''email'', ''Email is required'')]
      else if \<not> validateEmail pf (form_email formData)
      then [(''email'', ''Please enter a valid email'')]
      else [])
     @ (if form_phoneNumber formData \<noteq> [] \<and> \<not> validatePhone pf (form_phoneNumber formData)
        then [(''phoneNumber'', ''Please enter a valid 10-digit phone number'')]
        else [])
     @ (if form_emergencyContact formData \<noteq> []
           \<and> \<not> validatePhone pf (form_emergencyContact formData)
        then [(''emergencyContact'', ''Please enter a valid 10-digit emergency contact'')]
        else [])"

definition handleSaveProfile ::
  "platform \<Rightarrow> (store_call \<Rightarrow> bool) \<Rightarrow> user option \<Rightarrow> string option \<Rightarrow> profile_form \<Rightarrow>
   error_data fetch_result \<Rightarrow> unit proc" where
  "handleSaveProfile pf rejects user_now token formData result =
     (let newErrors = validateForm pf formData
      in await (emit (SetView ''setErrors'' (VJson (JObj (map (\<lambda>(k, v). (k, JStr v)) newErrors)))))
           (\<lambda>_.
         if newErrors \<noteq> [] then ret ()
         else
           try_catch_finally
             (seq [emit (SetFlag ''setIsLoading'' True),
                   updateUserInfo pf rejects user_now token
                     \<lparr>upd_email = form_email formData,
                      upd_first_name = Some (form_firstName formData),
                      upd_last_name = Some (form_lastName formData),
                      upd_phone_number = Some (form_phoneNumber formData),
                      upd_emergency_contact = Some (form_emergencyContact formData)\<rparr> result,
                   emit (SetFlag ''setIsEditing'' False),
                   emit (Alert ''Success'' ''Profile updated successfully'')])
             (\<lambda>error. seq [emit (ConsoleError ''Error updating profile:''),
                           emit (Alert ''Error'' ''Failed to update profile. Please try again.'')])
             (emit (SetFlag ''setIsLoading'' False))))"


section \<open>The chat screen\<close>

text \<open>
  The chat screen reads the stored user record by itself when it mounts (its own
  \<^verbatim>\<open>loadToken\<close>).
\<close>

definition chat_loadToken ::
  "platform \<Rightarrow> (store_call \<Rightarrow> bool) \<Rightarrow> secure_store \<Rightarrow> unit proc" where
  "chat_loadToken pf rejects store =
     try_catch_finally
       (await (getItemAsync rejects store ''userData'') (\<lambda>storedUser.
        if truthy storedUser
        then await ([], JSON_parse pf (the storedUser)) (\<lambda>parsed.
               emit (SetView ''setUserData'' (VUser parsed)))
        else ret ()))
       (\<lambda>error. emit (ConsoleError ''Failed to load auth token''))
       (emit (SetFlag ''setLoading'' False))"

text \<open>
  \<^verbatim>\<open>processAgentResponse\<close>: eight replacements in a row. The bullet is the three bytes of
  its UTF-8 encoding. The fifth replacement is written with a function that returns the
  first group followed by a colon, which is the replacement text \<^verbatim>\<open>$1:\<close>.
\<close>

definition bullet :: string where
  "bullet = [CHR 0xE2, CHR 0x80, CHR 0xA2]"

definition processAgentResponse :: "platform \<Rightarrow> string \<Rightarrow> string" where
  "processAgentResponse pf responseText =
     (let t1 = regex_replace pf LeadingAsterisk (bullet @ '' '') responseText;
          t2 = regex_replace pf NewlineAsterisk ([CHR 0x0A] @ bullet @ '' '') t1;
          t3 = regex_replace pf BulletNoSpace (bullet @ '' '') t2;
          t4 = regex_replace pf NumberNoSpace ''$1 '' t3;
          t5 = regex_replace pf MarkdownHeader ''$1:'' t4;
          t6 = regex_replace pf SentenceEnd (''$1'' @ [CHR 0x0A, CHR 0x0A]) t5;
          t7 = regex_replace pf NewlineTrailingAsterisk '''' t6
      in regex_replace pf TrailingAsterisk '''' t7)"

text \<open>The body of the answer of the conversational agent.\<close>

record agent_reply =
  reply_response :: "string option"
  reply_history :: json

definition agent_message :: "string \<Rightarrow> string \<Rightarrow> nat \<Rightarrow> message" where
  "agent_message mid txt now =
     \<lparr>message_id = mid, message_text = txt, createdAt = now,
      sender_id = ''agent'', sender_name = ''AI Assistant'',
      sender_avatar = Some ''https://placehold.co/100x100/blue/white?text=AI''\<rparr>"

text \<open>
  \<^verbatim>\<open>onSend\<close>. \<open>random_id\<close> is \<^verbatim>\<open>Math.random().toString()\<close> and \<open>now\<close> is \<^verbatim>\<open>new Date()\<close>;
  every run evaluates each of them at most once. Reading \<^verbatim>\<open>newMessages[0].text\<close> of an
  empty list and \<^verbatim>\<open>messageHistory.length\<close> of a history that is \<^verbatim>\<open>null\<close> or
  \<^verbatim>\<open>undefined\<close> (\<open>JNull\<close>) throw a \<^verbatim>\<open>TypeError\<close>. The body of the response is read
  before the status is looked at, and nothing is thrown when the status is not 2xx.
\<close>

definition onSend ::
  "platform \<Rightarrow> string \<Rightarrow> string option \<Rightarrow> user option \<Rightarrow> user option \<Rightarrow> json \<Rightarrow>
   message list \<Rightarrow> string \<Rightarrow> nat \<Rightarrow> agent_reply fetch_result \<Rightarrow> unit proc" where
  "onSend pf API_BASE_URL token user_now userData messageHistory newMessages random_id now result =
     seq [emit (SetFlag ''setShowSuggestions'' False),
          emit (AppendMessages newMessages),
          try_catch_finally
            (await (emit (SetFlag ''setLoading'' True)) (\<lambda>_.
             await (case newMessages of
                      [] \<Rightarrow> throw (Error ''TypeError'')
                    | m # _ \<Rightarrow> ret (message_text m)) (\<lambda>userMessage.
             await (if messageHistory = JNull then throw (Error ''TypeError'') else ret ()) (\<lambda>_.
             await (fetch \<lparr>http_method = ''POST'',
                           url = API_BASE_URL @ ''/simple_agent/simple_conversation'',
                           headers = [(''Content-Type'', ''application/json''),
                                      (''Authorization'',
                                         if truthy token then ''Bearer '' @ template token
                                         else '''')],
                           body = JsonBody (json_object
                             [(''query'', Some (JStr userMessage)),
                              (''user_id'',
                                 map_option JStr (or_else (map_option user_id userData)
                                                    (map_option user_id user_now))),
                              (''history'', Some messageHistory)])\<rparr> result) (\<lambda>response.
             await (response_json response) (\<lambda>data.
             if ok response \<and> truthy (reply_response data)
             then seq [emit (SetView ''setMessageHistory'' (VJson (reply_history data))),
                       emit (AppendMessages
                         [agent_message random_id
                            (processAgentResponse pf (template (reply_response data))) now])]
             else ret ()))))))
            (\<lambda>error. seq [emit (ConsoleError ''Error sending message:''),
                          emit (AppendMessages
                            [agent_message random_id
                               ''Sorry, there was an error processing your request. Please try again.''
                               now])])
            (emit (SetFlag ''setLoading'' False))]"

text \<open>
  The earlier version of the chat screen: no suggestions, the user id of the stored
  record only, and the text of the reply as it comes.
\<close>

definition onSend_plain ::
  "string \<Rightarrow> string option \<Rightarrow> user option \<Rightarrow> json \<Rightarrow>
   message list \<Rightarrow> string \<Rightarrow> nat \<Rightarrow> agent_reply fetch_result \<Rightarrow> unit proc" where
  "onSend_plain API_BASE_URL token userData messageHistory newMessages random_id now result =
     seq [emit (AppendMessages newMessages),
          try_catch_finally
            (await (emit (SetFlag ''setLoading'' True)) (\<lambda>_.
             await (case newMessages of
                      [] \<Rightarrow> throw (Error ''TypeError'')
                    | m # _ \<Rightarrow> ret (message_text m)) (\<lambda>userMessage.
             await (if messageHistory = JNull then throw (Error ''TypeError'') else ret ()) (\<lambda>_.
             await (fetch \<lparr>http_method = ''POST'',
                           url = API_BASE_URL @ ''/simple_agent/simple_conversation'',
                           headers = [(''Content-Type'', ''application/json''),
                                      (''Authorization'',
                                         if truthy token then ''Bearer '' @ template token
                                         else '''')],
                           body = JsonBody (json_object
                             [(''query'', Some (JStr userMessage)),
                              (''user_id'', map_option JStr (map_option user_id userData)),
                              (''history'', Some messageHistory)])\<rparr> result) (\<lambda>response.
             await (response_json response) (\<lambda>data.
             if ok response \<and> truthy (reply_response data)
             then seq [emit (SetView ''setMessageHistory'' (VJson (reply_history data))),
                       emit (AppendMessages
                         [agent_message random_id (template (reply_response data)) now])]
             else ret ()))))))
            (\<lambda>error. seq [emit (ConsoleError ''Error sending message:''),
                          emit (AppendMessages
                            [agent_message random_id
                               ''Sorry, there was an error processing your request. Please try again.''
                               now])])
            (emit (SetFlag ''setLoading'' False))]"


section \<open>What is observed of a trace\<close>

text \<open>The requests of a trace, in the order in which they are issued.\<close>

fun requests :: "event list \<Rightarrow> request list" where
  "requests [] = []"
| "requests (Fetch r # es) = r # requests es"
| "requests (e # es) = requests es"


fun is_store_write :: "event \<Rightarrow> bool" where
  "is_store_write (StoreSet key v) = True"
| "is_store_write (StoreDelete key) = True"
| "is_store_write e = False"




text \<open>The sign-in failed: its handler ran and showed the alert of \<^verbatim>\<open>signIn\<close>.\<close>

definition signIn_failed :: "unit proc \<Rightarrow> bool" where
  "signIn_failed p =
     (Alert ''Error'' ''Failed to sign in. Please check your credentials.'' \<in> set (trace p))"

text \<open>Every request of the trace carries the token as a bearer token.\<close>

definition bearer_attached :: "string \<Rightarrow> event list \<Rightarrow> bool" where
  "bearer_attached tok es =
     list_all (\<lambda>r. (''Authorization'', ''Bearer '' @ tok) \<in> set (headers r)) (requests es)"






text \<open>No endpoint, a method with a URL, is requested twice.\<close>

definition no_retry :: "event list \<Rightarrow> bool" where
  "no_retry es = distinct (map (\<lambda>r. (http_method r, url r)) (requests es))"




section \<open>Sample environments\<close>

text \<open>
  Concrete answers of the environment, for the instances that follow the theorems: a
  platform whose JSON codec writes a user record as its id, a backend that accepts the
  credentials, one that refuses a request, and an agent that answers with a server error.
\<close>

definition sample_platform :: platform where
  "sample_platform =
     \<lparr>JSON_stringify = user_id,
      JSON_parse = (\<lambda>s. Inr \<lparr>user_id = s, user_email = '''', user_firstName = '''',
                               user_lastName = '''', user_username = '''',
                               user_phoneNumber = None, user_emergencyContact = None\<rparr>),
      regex_test = (\<lambda>p s. True),
      regex_replace = (\<lambda>p r s. s),
      regex_group1 = (\<lambda>p s. None),
      parseInt = (\<lambda>s. JNull)\<rparr>"

definition sample_login :: "login_response fetch_result" where
  "sample_login =
     Resolves \<lparr>status = 200, statusText = ''OK'',
               json_result = Inr \<lparr>access_token = ''tok'', token_type = ''bearer''\<rparr>\<rparr>"

definition sample_me :: "user_data fetch_result" where
  "sample_me =
     Resolves \<lparr>status = 200, statusText = ''OK'',
               json_result = Inr \<lparr>me_id = ''u1'', me_email = '''', me_username = '''',
                                  me_first_name = '''', me_last_name = '''',
                                  me_phone_number = None, me_emergency_contact = None\<rparr>\<rparr>"

definition sample_user :: user where
  "sample_user =
     \<lparr>user_id = ''u1'', user_email = '''', user_firstName = '''', user_lastName = '''',
      user_username = '''', user_phoneNumber = None, user_emergencyContact = None\<rparr>"

definition unauthorized :: "'b fetch_result" where
  "unauthorized =
     Resolves \<lparr>status = 401, statusText = ''Unauthorized'',
               json_result = Inl (Error ''Unexpected end of JSON input'')\<rparr>"

definition sample_ok :: "json fetch_result" where
  "sample_ok = Resolves \<lparr>status = 200, statusText = ''OK'', json_result = Inr (JArr [])\<rparr>"

definition server_error_reply :: "agent_reply fetch_result" where
  "server_error_reply =
     Resolves \<lparr>status = 500, statusText = ''Internal Server Error'',
               json_result = Inr \<lparr>reply_response = None, reply_history = JNull\<rparr>\<rparr>"

definition signed_out :: app_state where
  "signed_out = \<lparr>st_user = None, st_token = None, st_flags = Map.empty, st_store = Map.empty\<rparr>"

definition sample_message :: message where
  "sample_message =
     \<lparr>message_id = ''m1'', message_text = ''Is my floor safe?'', createdAt = 0,
      sender_id = ''u1'', sender_name = ''You'', sender_avatar = None\<rparr>"


definition sample_sign_up :: sign_up_data where
  "sample_sign_up =
     \<lparr>su_firstName = ''Alice'', su_lastName = ''Doe'', su_email = ''alice@example.org'',
      su_username = ''alice'', su_phoneNumber = [], su_password = ''secret''\<rparr>"

definition sample_form :: profile_form where
  "sample_form =
     \<lparr>form_email = ''alice@example.org'', form_firstName = ''Alice'', form_lastName = ''Doe'',
      form_phoneNumber = [], form_emergencyContact = []\<rparr>"

definition sample_update :: update_user_data where
  "sample_update =
     \<lparr>upd_email = ''alice@example.org'', upd_first_name = Some ''Alice'',
      upd_last_name = Some ''Doe'', upd_phone_number = None, upd_emergency_contact = None\<rparr>"


section \<open>Properties of the patient selection\<close>

lemma toggle_member:
  "p \<in> set (togglePatientSelection p xs) \<longleftrightarrow> p \<notin> set xs"
  by (simp add: togglePatientSelection_def)

lemma toggle_other:
  "q \<noteq> p \<Longrightarrow> q \<in> set (togglePatientSelection p xs) \<longleftrightarrow> q \<in> set xs"
  by (auto simp: togglePatientSelection_def)

lemma toggle_distinct:
  "distinct xs \<Longrightarrow> distinct (togglePatientSelection p xs)"
  by (simp add: togglePatientSelection_def)

lemma toggle_twice_set:
  "set (togglePatientSelection p (togglePatientSelection p xs)) = set xs"
  by (auto simp: togglePatientSelection_def)

lemma toggle_keeps_others_in_order:
  "filter (\<lambda>q. q \<noteq> p) (togglePatientSelection p xs) = filter (\<lambda>q. q \<noteq> p) xs"
  by (simp add: togglePatientSelection_def)

text \<open>
  C10. For a selection without duplicates and any patient id, one application of
  \<open>togglePatientSelection\<close> flips the membership of that id, two applications give back
  the membership of the original list, the result has no duplicates, and every other id
  is a member after exactly when it was before (the other ids even keep their order).
\<close>

theorem togglePatientSelection_membership_toggle:
  assumes "distinct xs"
  shows "(isPatientSelected (togglePatientSelection p xs) p \<longleftrightarrow> \<not> isPatientSelected xs p)
       \<and> (\<forall>q. isPatientSelected (togglePatientSelection p (togglePatientSelection p xs)) q
              \<longleftrightarrow> isPatientSelected xs q)
       \<and> distinct (togglePatientSelection p xs)
       \<and> distinct (togglePatientSelection p (togglePatientSelection p xs))
       \<and> (\<forall>q. q \<noteq> p \<longrightarrow>
              (isPatientSelected (togglePatientSelection p xs) q \<longleftrightarrow> isPatientSelected xs q))
       \<and> filter (\<lambda>q. q \<noteq> p) (togglePatientSelection p xs) = filter (\<lambda>q. q \<noteq> p) xs"
  using assms
  by (simp add: isPatientSelected_def toggle_member toggle_other toggle_distinct
      toggle_twice_set toggle_keeps_others_in_order)

theorem togglePatientSelection_membership_toggle_witness:
  "distinct [''p1'', ''p2'']
   \<and> togglePatientSelection ''p2'' [''p1'', ''p2''] = [''p1'']
   \<and> togglePatientSelection ''p3'' [''p1'', ''p2''] = [''p1'', ''p2'', ''p3'']
   \<and> isPatientSelected (togglePatientSelection ''p3'' [''p1'', ''p2'']) ''p3''
   \<and> distinct (togglePatientSelection ''p3'' [''p1'', ''p2''])"
  using togglePatientSelection_membership_toggle [of "[''p1'', ''p2'']" "''p3''"]
  by (simp add: togglePatientSelection_def isPatientSelected_def)

section \<open>Properties of the mock analysis\<close>


lemma loop_unfold:
  "i < n \<Longrightarrow> recommendations_loop rnd k i n recs =
     recommendations_loop rnd (k + 1) (i + 1) n
       (if js_index possibleRecommendations (random_floor rnd k (length possibleRecommendations)) \<in> set recs
        then recs
        else recs @ [js_index possibleRecommendations (random_floor rnd k (length possibleRecommendations))])"
  by (subst recommendations_loop.simps) (simp add: Let_def)

lemma loop_stop: "\<not> i < n \<Longrightarrow> recommendations_loop rnd k i n recs = recs"
  by (subst recommendations_loop.simps) simp









section \<open>Evaluating operations\<close>

lemmas proc_defs = ret_def throw_def emit_def await_def try_catch_def try_finally_def
  try_catch_finally_def fetch_def response_json_def setItemAsync_def getItemAsync_def
  deleteItemAsync_def trace_def resolves_def

lemmas sample_defs = sample_platform_def sample_login_def sample_me_def sample_user_def
  unauthorized_def sample_ok_def server_error_reply_def signed_out_def sample_message_def
  sample_sign_up_def sample_form_def sample_update_def

text \<open>
  Rules that keep the simplifier out of what it need not look into: the continuation of
  an \<open>await\<close> and the handler of a \<open>try_catch\<close> until they are applied, and the texts
  of alerts and errors.
\<close>

lemma await_cong: "p = p' \<Longrightarrow> await p k = await p' k"
  by simp

lemma try_catch_cong: "p = p' \<Longrightarrow> try_catch p h = try_catch p' h"
  by simp

lemma Alert_block: "Alert t m = Alert t m"
  by (rule refl)

lemma ConsoleError_block: "ConsoleError l = ConsoleError l"
  by (rule refl)

lemma Fetch_block: "Fetch r = Fetch r"
  by (rule refl)

lemma SetView_block: "SetView n v = SetView n v"
  by (rule refl)

lemma Error_block: "Error m = Error m"
  by (rule refl)

lemmas blocks_open = await_cong try_catch_cong Alert_block ConsoleError_block SetView_block
  Error_block

lemmas blocks = blocks_open Fetch_block






lemma signIn_succeeded_state:
  assumes "\<not> signIn_failed (signIn pf rejects username password loginResult meResult)"
  shows "\<exists>tok usr.
           st_token (state_after s (trace (signIn pf rejects username password loginResult meResult))) = Some tok
         \<and> st_user (state_after s (trace (signIn pf rejects username password loginResult meResult))) = Some usr
         \<and> st_store (state_after s (trace (signIn pf rejects username password loginResult meResult)))
             = (st_store s)(''userToken'' \<mapsto> tok, ''userData'' \<mapsto> JSON_stringify pf usr)"
  using assms
  by (auto simp: signIn_def signIn_failed_def state_after_def proc_defs Let_def
      split: fetch_result.splits sum.splits if_splits)

lemma loadToken_restores:
  assumes "store ''userToken'' = Some tok" "store ''userData'' = Some (JSON_stringify pf usr)"
    and "tok \<noteq> []" "JSON_stringify pf usr \<noteq> []"
    and "JSON_parse pf (JSON_stringify pf usr) = Inr usr"
    and "\<not> rejects (GetItem ''userToken'')" "\<not> rejects (GetItem ''userData'')"
  shows "st_token (state_after s (trace (loadToken pf rejects store))) = Some tok
       \<and> st_user (state_after s (trace (loadToken pf rejects store))) = Some usr"
  using assms
  by (simp add: loadToken_def state_after_def proc_defs truthy_def)


section \<open>The operations, one property at a time\<close>

text \<open>
  Each lemma unfolds one operation and follows every answer of the environment.
\<close>

subsection \<open>\<open>signIn\<close>\<close>


lemma signIn_no_retry:
  "no_retry (trace (signIn pf rejects username password loginResult meResult))"
  by (auto simp: signIn_def proc_defs Let_def ok_def no_retry_def
      split: fetch_result.splits sum.splits option.splits list.splits
      cong: blocks_open)




subsection \<open>\<open>signUp\<close>\<close>


lemma signUp_no_retry:
  "no_retry (trace (signUp signUpData errorResult))"
  by (auto simp: signUp_def proc_defs Let_def ok_def no_retry_def
      split: fetch_result.splits sum.splits option.splits list.splits
      cong: blocks_open)



subsection \<open>\<open>updateUserInfo\<close>\<close>


lemma updateUserInfo_no_retry:
  "no_retry (trace (updateUserInfo pf rejects user_now token updateData errorResult))"
  by (auto simp: updateUserInfo_def proc_defs Let_def ok_def no_retry_def
      split: fetch_result.splits sum.splits option.splits list.splits
      cong: blocks_open)


subsection \<open>\<open>handleLogin\<close>\<close>


lemma handleLogin_no_retry:
  "no_retry (trace (handleLogin pf rejects username password loginResult meResult))"
  by (auto simp: handleLogin_def signIn_def proc_defs Let_def ok_def no_retry_def
      split: fetch_result.splits sum.splits option.splits list.splits
      cong: blocks_open)



subsection \<open>\<open>handleSignUp\<close>\<close>


lemma handleSignUp_no_retry:
  "no_retry (trace (handleSignUp pf firstName lastName username email phoneNumber password
      errorResult))"
  by (auto simp: handleSignUp_def signUp_def proc_defs Let_def ok_def no_retry_def
      split: fetch_result.splits sum.splits option.splits list.splits
      cong: blocks_open)




subsection \<open>\<open>handleSaveProfile\<close>\<close>


lemma handleSaveProfile_no_retry:
  "no_retry (trace (handleSaveProfile pf rejects user_now token formData errorResult))"
  by (auto simp: handleSaveProfile_def updateUserInfo_def proc_defs Let_def ok_def no_retry_def
      split: fetch_result.splits sum.splits option.splits list.splits
      cong: blocks_open)




subsection \<open>\<open>fetchSpaces\<close>\<close>


lemma fetchSpaces_no_retry:
  "no_retry (trace (fetchSpaces A token user_now result))"
  by (auto simp: fetchSpaces_def proc_defs Let_def ok_def no_retry_def
      split: fetch_result.splits sum.splits option.splits list.splits
      cong: blocks_open)




lemma fetchSpaces_bearer:
  "bearer_attached tok (trace (fetchSpaces A (Some tok) user_now result))"
  by (auto simp: fetchSpaces_def proc_defs Let_def ok_def bearer_attached_def template_def truthy_def
      split: fetch_result.splits sum.splits option.splits list.splits
      cong: blocks_open)

lemma fetchSpaces_view_only:
  "\<not> list_ex is_store_write (trace (fetchSpaces A token user_now result))"
  by (auto simp: fetchSpaces_def proc_defs Let_def ok_def 
      split: fetch_result.splits sum.splits option.splits list.splits
      cong: blocks)

subsection \<open>\<open>home_fetchPatients\<close>\<close>


lemma home_fetchPatients_no_retry:
  "no_retry (trace (home_fetchPatients A token user_now result))"
  by (auto simp: home_fetchPatients_def proc_defs Let_def ok_def no_retry_def
      split: fetch_result.splits sum.splits option.splits list.splits
      cong: blocks_open)




lemma home_fetchPatients_bearer:
  "bearer_attached tok (trace (home_fetchPatients A (Some tok) user_now result))"
  by (auto simp: home_fetchPatients_def proc_defs Let_def ok_def bearer_attached_def template_def truthy_def
      split: fetch_result.splits sum.splits option.splits list.splits
      cong: blocks_open)

lemma home_fetchPatients_view_only:
  "\<not> list_ex is_store_write (trace (home_fetchPatients A token user_now result))"
  by (auto simp: home_fetchPatients_def proc_defs Let_def ok_def 
      split: fetch_result.splits sum.splits option.splits list.splits
      cong: blocks)

subsection \<open>\<open>handleDeletePatient_onPress\<close>\<close>


lemma handleDeletePatient_onPress_no_retry:
  "no_retry (trace (handleDeletePatient_onPress A token patientId result))"
  by (auto simp: handleDeletePatient_onPress_def proc_defs Let_def ok_def no_retry_def
      split: fetch_result.splits sum.splits option.splits list.splits
      cong: blocks_open)



subsection \<open>\<open>handleSavePatient\<close>\<close>


lemma handleSavePatient_no_retry:
  "no_retry (trace (handleSavePatient pf A token currentPatient patientName
      patientCondition patientAge medicalHistory result))"
  by (auto simp: handleSavePatient_def proc_defs Let_def ok_def no_retry_def
      split: fetch_result.splits sum.splits option.splits list.splits
      cong: blocks_open)



subsection \<open>\<open>fetchSpaceDetails\<close>\<close>


lemma fetchSpaceDetails_no_retry:
  "no_retry (trace (fetchSpaceDetails A token i spaceResult logsResult))"
  by (auto simp: fetchSpaceDetails_def proc_defs Let_def ok_def no_retry_def
      split: fetch_result.splits sum.splits option.splits list.splits
      cong: blocks_open)




lemma fetchSpaceDetails_bearer:
  "bearer_attached tok (trace (fetchSpaceDetails A (Some tok) i spaceResult logsResult))"
  by (auto simp: fetchSpaceDetails_def proc_defs Let_def ok_def bearer_attached_def template_def truthy_def
      split: fetch_result.splits sum.splits option.splits list.splits
      cong: blocks_open)

lemma fetchSpaceDetails_view_only:
  "\<not> list_ex is_store_write (trace (fetchSpaceDetails A token i spaceResult
      logsResult))"
  by (auto simp: fetchSpaceDetails_def proc_defs Let_def ok_def 
      split: fetch_result.splits sum.splits option.splits list.splits
      cong: blocks)


subsection \<open>\<open>details_fetchPatients\<close>\<close>


lemma details_fetchPatients_no_retry:
  "no_retry (trace (details_fetchPatients A token space_state spaceData patientsResult))"
  by (auto simp: details_fetchPatients_def proc_defs Let_def ok_def no_retry_def
      split: fetch_result.splits sum.splits option.splits list.splits
      cong: blocks_open)



lemma details_fetchPatients_bearer:
  "bearer_attached tok (trace (details_fetchPatients A (Some tok) space_state spaceData
      patientsResult))"
  by (auto simp: details_fetchPatients_def proc_defs Let_def ok_def bearer_attached_def template_def truthy_def
      split: fetch_result.splits sum.splits option.splits list.splits
      cong: blocks_open)

lemma details_fetchPatients_view_only:
  "\<not> list_ex is_store_write (trace (details_fetchPatients A token space_state
      spaceData patientsResult))"
  by (auto simp: details_fetchPatients_def proc_defs Let_def ok_def 
      split: fetch_result.splits sum.splits option.splits list.splits
      cong: blocks)

subsection \<open>\<open>details_fetchSpaceDetails\<close>\<close>


lemma details_fetchSpaceDetails_no_retry:
  "no_retry (trace (details_fetchSpaceDetails A token i space_state typedSpaceResult
      logsResult patientsResult))"
  by (auto simp: details_fetchSpaceDetails_def details_fetchPatients_def proc_defs Let_def ok_def no_retry_def
      split: fetch_result.splits sum.splits option.splits list.splits
      cong: blocks_open)




lemma details_fetchSpaceDetails_bearer:
  "bearer_attached tok (trace (details_fetchSpaceDetails A (Some tok) i space_state
      typedSpaceResult logsResult patientsResult))"
  by (auto simp: details_fetchSpaceDetails_def details_fetchPatients_def proc_defs Let_def ok_def bearer_attached_def template_def truthy_def
      split: fetch_result.splits sum.splits option.splits list.splits
      cong: blocks_open)

lemma details_fetchSpaceDetails_view_only:
  "\<not> list_ex is_store_write (trace (details_fetchSpaceDetails A token i space_state
      typedSpaceResult logsResult patientsResult))"
  by (auto simp: details_fetchSpaceDetails_def details_fetchPatients_def proc_defs Let_def ok_def 
      split: fetch_result.splits sum.splits option.splits list.splits
      cong: blocks)


subsection \<open>\<open>handleSaveSpace\<close>\<close>


lemma handleSaveSpace_no_retry:
  "no_retry (trace (handleSaveSpace A token i spaceName spaceDescription selectedPatientIds
      result))"
  by (auto simp: handleSaveSpace_def proc_defs Let_def ok_def no_retry_def
      split: fetch_result.splits sum.splits option.splits list.splits
      cong: blocks_open)



subsection \<open>\<open>handleDeleteSpace_onPress\<close>\<close>


lemma handleDeleteSpace_onPress_no_retry:
  "no_retry (trace (handleDeleteSpace_onPress A token i result))"
  by (auto simp: handleDeleteSpace_onPress_def proc_defs Let_def ok_def no_retry_def
      split: fetch_result.splits sum.splits option.splits list.splits
      cong: blocks_open)



subsection \<open>\<open>fetchLogDetails\<close>\<close>


lemma fetchLogDetails_no_retry:
  "no_retry (trace (fetchLogDetails A token logId result))"
  by (auto simp: fetchLogDetails_def proc_defs Let_def ok_def no_retry_def
      split: fetch_result.splits sum.splits option.splits list.splits
      cong: blocks_open)




lemma fetchLogDetails_bearer:
  "bearer_attached tok (trace (fetchLogDetails A (Some tok) logId result))"
  by (auto simp: fetchLogDetails_def proc_defs Let_def ok_def bearer_attached_def template_def truthy_def
      split: fetch_result.splits sum.splits option.splits list.splits
      cong: blocks_open)

lemma fetchLogDetails_view_only:
  "\<not> list_ex is_store_write (trace (fetchLogDetails A token logId result))"
  by (auto simp: fetchLogDetails_def proc_defs Let_def ok_def 
      split: fetch_result.splits sum.splits option.splits list.splits
      cong: blocks)

subsection \<open>\<open>add_fetchPatients\<close>\<close>


lemma add_fetchPatients_no_retry:
  "no_retry (trace (add_fetchPatients A token result))"
  by (auto simp: add_fetchPatients_def proc_defs Let_def ok_def no_retry_def
      split: fetch_result.splits sum.splits option.splits list.splits
      cong: blocks_open)




lemma add_fetchPatients_bearer:
  "bearer_attached tok (trace (add_fetchPatients A (Some tok) result))"
  by (auto simp: add_fetchPatients_def proc_defs Let_def ok_def bearer_attached_def template_def truthy_def
      split: fetch_result.splits sum.splits option.splits list.splits
      cong: blocks_open)

lemma add_fetchPatients_view_only:
  "\<not> list_ex is_store_write (trace (add_fetchPatients A token result))"
  by (auto simp: add_fetchPatients_def proc_defs Let_def ok_def 
      split: fetch_result.splits sum.splits option.splits list.splits
      cong: blocks)

subsection \<open>\<open>handleSubmit\<close>\<close>


lemma handleSubmit_no_retry:
  "no_retry (trace (handleSubmit A token user_now spaceName descr selectedPatientIds
      errorResult))"
  by (auto simp: handleSubmit_def proc_defs Let_def ok_def no_retry_def
      split: fetch_result.splits sum.splits option.splits list.splits
      cong: blocks_open)




lemma handleSubmit_bearer:
  "bearer_attached tok (trace (handleSubmit A (Some tok) user_now spaceName descr
      selectedPatientIds errorResult))"
  by (auto simp: handleSubmit_def proc_defs Let_def ok_def bearer_attached_def template_def truthy_def
      split: fetch_result.splits sum.splits option.splits list.splits
      cong: blocks_open)

subsection \<open>\<open>handleSubmit_without_patients\<close>\<close>


lemma handleSubmit_without_patients_no_retry:
  "no_retry (trace (handleSubmit_without_patients A token user_now spaceName descr
      errorResult))"
  by (auto simp: handleSubmit_without_patients_def proc_defs Let_def ok_def no_retry_def
      split: fetch_result.splits sum.splits option.splits list.splits
      cong: blocks_open)




lemma handleSubmit_without_patients_bearer:
  "bearer_attached tok (trace (handleSubmit_without_patients A (Some tok) user_now
      spaceName descr errorResult))"
  by (auto simp: handleSubmit_without_patients_def proc_defs Let_def ok_def bearer_attached_def template_def truthy_def
      split: fetch_result.splits sum.splits option.splits list.splits
      cong: blocks_open)

subsection \<open>\<open>mock_uploadImage\<close>\<close>


lemma mock_uploadImage_no_retry:
  "no_retry (trace (mock_uploadImage A rnd token img spaceId spaceNameParam result))"
  by (auto simp: mock_uploadImage_def proc_defs Let_def ok_def no_retry_def
      split: fetch_result.splits sum.splits option.splits list.splits
      cong: blocks_open)




lemma mock_uploadImage_bearer:
  "bearer_attached tok (trace (mock_uploadImage A rnd (Some tok) img spaceId spaceNameParam
      result))"
  by (auto simp: mock_uploadImage_def proc_defs Let_def ok_def bearer_attached_def template_def truthy_def
      split: fetch_result.splits sum.splits option.splits list.splits
      cong: blocks_open)

subsection \<open>\<open>performUpload\<close>\<close>


lemma performUpload_no_retry:
  "no_retry (trace (performUpload pf A token imageUri upload_id result))"
  by (auto simp: performUpload_def proc_defs Let_def ok_def no_retry_def
      split: fetch_result.splits sum.splits option.splits list.splits
      cong: blocks_open)




lemma performUpload_bearer:
  "bearer_attached tok (trace (performUpload pf A (Some tok) imageUri upload_id result))"
  by (auto simp: performUpload_def proc_defs Let_def ok_def bearer_attached_def template_def truthy_def
      split: fetch_result.splits sum.splits option.splits list.splits
      cong: blocks_open)

subsection \<open>\<open>uploadImage\<close>\<close>


lemma uploadImage_no_retry:
  "no_retry (trace (uploadImage pf A token pickedUri spaceId result))"
  by (auto simp: uploadImage_def performUpload_def proc_defs Let_def ok_def no_retry_def
      split: fetch_result.splits sum.splits option.splits list.splits
      cong: blocks_open)




lemma uploadImage_bearer:
  "bearer_attached tok (trace (uploadImage pf A (Some tok) pickedUri spaceId result))"
  by (auto simp: uploadImage_def performUpload_def proc_defs Let_def ok_def bearer_attached_def template_def truthy_def
      split: fetch_result.splits sum.splits option.splits list.splits
      cong: blocks_open)

subsection \<open>\<open>uploadImage_continue_anyway\<close>\<close>


lemma uploadImage_continue_anyway_no_retry:
  "no_retry (trace (uploadImage_continue_anyway pf A token imageUri result))"
  by (auto simp: uploadImage_continue_anyway_def performUpload_def proc_defs Let_def ok_def no_retry_def
      split: fetch_result.splits sum.splits option.splits list.splits
      cong: blocks_open)




lemma uploadImage_continue_anyway_bearer:
  "bearer_attached tok (trace (uploadImage_continue_anyway pf A (Some tok) imageUri
      result))"
  by (auto simp: uploadImage_continue_anyway_def performUpload_def proc_defs Let_def ok_def bearer_attached_def template_def truthy_def
      split: fetch_result.splits sum.splits option.splits list.splits
      cong: blocks_open)

subsection \<open>\<open>onSend\<close>\<close>


lemma onSend_no_retry:
  "no_retry (trace (onSend pf A token user_now chatUser messageHistory newMessages
      random_id now agentResult))"
  by (auto simp: onSend_def proc_defs Let_def ok_def no_retry_def
      split: fetch_result.splits sum.splits option.splits list.splits
      cong: blocks_open)



subsection \<open>\<open>onSend_plain\<close>\<close>


lemma onSend_plain_no_retry:
  "no_retry (trace (onSend_plain A token chatUser messageHistory newMessages random_id now
      agentResult))"
  by (auto simp: onSend_plain_def proc_defs Let_def ok_def no_retry_def
      split: fetch_result.splits sum.splits option.splits list.splits
      cong: blocks_open)




section \<open>Sign-in and the login screen\<close>





section \<open>What outlives a component\<close>

text \<open>
  C4, as the code has it. Spaces, patients and logs live in the view state of the screen
  that fetched them: the operations that fetch them write nothing to the secure store.
  The session is kept beyond that. A sign-in that does not fail leaves the token and the
  user in memory and writes both to the secure store, under \<^verbatim>\<open>userToken\<close> and
  \<^verbatim>\<open>userData\<close>; and when the provider is mounted again, with nothing in memory,
  \<open>loadToken\<close> reads them back from the store (given that the store answers, that the
  token is not the empty string and that the JSON codec reads back the text it wrote for
  this user).
\<close>

theorem session_persisted_entities_in_view_state:
  fixes s :: app_state and s0 :: app_state and pf :: platform
    and rejects :: "store_call \<Rightarrow> bool" and username :: string and password :: string
    and loginResult :: "login_response fetch_result" and meResult :: "user_data fetch_result"
  defines "s' \<equiv> state_after s (trace (signIn pf rejects username password loginResult meResult))"
  shows "\<not> list_ex is_store_write (trace (fetchSpaces A token user_now result))
   \<and> \<not> list_ex is_store_write (trace (home_fetchPatients A token user_now result))
   \<and> \<not> list_ex is_store_write (trace (fetchSpaceDetails A token i spaceResult logsResult))
   \<and> \<not> list_ex is_store_write
         (trace (details_fetchPatients A token space_state spaceData patientsResult))
   \<and> \<not> list_ex is_store_write
         (trace (details_fetchSpaceDetails A token i space_state typedSpaceResult logsResult
            patientsResult))
   \<and> \<not> list_ex is_store_write (trace (fetchLogDetails A token logId result))
   \<and> \<not> list_ex is_store_write (trace (add_fetchPatients A token result))
   \<and> (\<not> signIn_failed (signIn pf rejects username password loginResult meResult) \<longrightarrow>
        (\<exists>tok usr.
           st_token s' = Some tok \<and> st_user s' = Some usr
         \<and> st_store s' ''userToken'' = Some tok
         \<and> st_store s' ''userData'' = Some (JSON_stringify pf usr)
         \<and> (tok \<noteq> [] \<and> JSON_stringify pf usr \<noteq> []
              \<and> JSON_parse pf (JSON_stringify pf usr) = Inr usr
              \<and> \<not> rejects' (GetItem ''userToken'') \<and> \<not> rejects' (GetItem ''userData'') \<longrightarrow>
              st_token (state_after s0 (trace (loadToken pf rejects' (st_store s')))) = Some tok
            \<and> st_user (state_after s0 (trace (loadToken pf rejects' (st_store s')))) = Some usr)))"
proof -
  have views:
    "\<not> list_ex is_store_write (trace (fetchSpaces A token user_now result))"
    "\<not> list_ex is_store_write (trace (home_fetchPatients A token user_now result))"
    "\<not> list_ex is_store_write (trace (fetchSpaceDetails A token i spaceResult logsResult))"
    "\<not> list_ex is_store_write
        (trace (details_fetchPatients A token space_state spaceData patientsResult))"
    "\<not> list_ex is_store_write
        (trace (details_fetchSpaceDetails A token i space_state typedSpaceResult logsResult
           patientsResult))"
    "\<not> list_ex is_store_write (trace (fetchLogDetails A token logId result))"
    "\<not> list_ex is_store_write (trace (add_fetchPatients A token result))"
    by (rule fetchSpaces_view_only home_fetchPatients_view_only fetchSpaceDetails_view_only
        details_fetchPatients_view_only details_fetchSpaceDetails_view_only
        fetchLogDetails_view_only add_fetchPatients_view_only)+
  have session:
    "\<exists>tok usr.
        st_token s' = Some tok \<and> st_user s' = Some usr
      \<and> st_store s' ''userToken'' = Some tok
      \<and> st_store s' ''userData'' = Some (JSON_stringify pf usr)
      \<and> (tok \<noteq> [] \<and> JSON_stringify pf usr \<noteq> []
           \<and> JSON_parse pf (JSON_stringify pf usr) = Inr usr
           \<and> \<not> rejects' (GetItem ''userToken'') \<and> \<not> rejects' (GetItem ''userData'') \<longrightarrow>
           st_token (state_after s0 (trace (loadToken pf rejects' (st_store s')))) = Some tok
         \<and> st_user (state_after s0 (trace (loadToken pf rejects' (st_store s')))) = Some usr)"
    if ok: "\<not> signIn_failed (signIn pf rejects username password loginResult meResult)"
  proof -
    obtain tok usr where mem: "st_token s' = Some tok" "st_user s' = Some usr"
      and store: "st_store s' = (st_store s)(''userToken'' \<mapsto> tok,
                                            ''userData'' \<mapsto> JSON_stringify pf usr)"
      using signIn_succeeded_state [OF ok, of s] unfolding s'_def by blast
    have keys: "st_store s' ''userToken'' = Some tok"
      "st_store s' ''userData'' = Some (JSON_stringify pf usr)"
      by (simp_all add: store)
    have "st_token (state_after s0 (trace (loadToken pf rejects' (st_store s')))) = Some tok
        \<and> st_user (state_after s0 (trace (loadToken pf rejects' (st_store s')))) = Some usr"
      if "tok \<noteq> []" "JSON_stringify pf usr \<noteq> []"
        "JSON_parse pf (JSON_stringify pf usr) = Inr usr"
        "\<not> rejects' (GetItem ''userToken'')" "\<not> rejects' (GetItem ''userData'')"
      using loadToken_restores [OF keys that] .
    with mem keys show ?thesis by blast
  qed
  from views session show ?thesis by blast
qed

theorem session_persisted_entities_in_view_state_witness:
  "\<not> signIn_failed (signIn sample_platform (\<lambda>c. False) ''alice'' ''secret'' sample_login sample_me)
   \<and> st_store (state_after signed_out
        (trace (signIn sample_platform (\<lambda>c. False) ''alice'' ''secret'' sample_login sample_me)))
        ''userData'' = Some ''u1''
   \<and> JSON_parse sample_platform (JSON_stringify sample_platform sample_user) = Inr sample_user
   \<and> st_user (state_after signed_out
        (trace (loadToken sample_platform (\<lambda>c. False)
           (st_store (state_after signed_out
              (trace (signIn sample_platform (\<lambda>c. False) ''alice'' ''secret'' sample_login
                 sample_me))))))) = Some sample_user
   \<and> \<not> list_ex is_store_write
         (trace (fetchSpaces ''https://api'' (Some ''tok'') (Some sample_user) sample_ok))"
  using session_persisted_entities_in_view_state
    [where pf = sample_platform and rejects = "\<lambda>c. False" and username = "''alice''"
       and password = "''secret''" and loginResult = sample_login and meResult = sample_me
       and s = signed_out and s0 = signed_out and rejects' = "\<lambda>c. False"
       and A = "''https://api''" and token = "Some ''tok''" and user_now = "Some sample_user"
       and result = sample_ok and i = "Some ''s1''" and spaceResult = sample_ok
       and logsResult = sample_ok and space_state = None and spaceData = None
       and patientsResult = unauthorized and typedSpaceResult = unauthorized
       and logId = "Some ''l1''"]
  by (simp add: signIn_def loadToken_def fetchSpaces_def signIn_failed_def state_after_def
      proc_defs sample_defs Let_def ok_def truthy_def template_def)

text \<open>
  The claim as it is written fails for the session: a provider that is mounted afresh,
  with no user and no token in memory, over the store that an earlier sign-in left, has
  the token of that sign-in again after \<open>loadToken\<close>.
\<close>

theorem session_outlives_component_counterexample:
  "st_token (state_after signed_out
      (trace (loadToken sample_platform (\<lambda>c. False)
         (st_store (state_after signed_out
            (trace (signIn sample_platform (\<lambda>c. False) ''alice'' ''secret'' sample_login
               sample_me))))))) = Some ''tok''"
  by (simp add: signIn_def loadToken_def state_after_def proc_defs sample_defs Let_def ok_def
      truthy_def)


section \<open>The token on authenticated requests\<close>

text \<open>
  C6. After a sign-in that does not fail, the token is in memory and in the secure store
  under \<^verbatim>\<open>userToken\<close>, and every request that the listing of spaces, the details of a
  space, the retrieval of logs, the listing of patients, the creation of a space and the
  creation of a log issue with that token carries the header
  \<^verbatim>\<open>Authorization: Bearer <token>\<close>.
\<close>

theorem token_stored_and_attached:
  fixes s :: app_state and pf :: platform
    and rejects :: "store_call \<Rightarrow> bool" and username :: string and password :: string
    and loginResult :: "login_response fetch_result" and meResult :: "user_data fetch_result"
  defines "s' \<equiv> state_after s (trace (signIn pf rejects username password loginResult meResult))"
  assumes ok: "\<not> signIn_failed (signIn pf rejects username password loginResult meResult)"
  shows "\<exists>tok. st_token s' = Some tok
     \<and> st_store s' ''userToken'' = Some tok
     \<and> bearer_attached tok (trace (fetchSpaces A (st_token s') user_now result))
     \<and> bearer_attached tok (trace (fetchSpaceDetails A (st_token s') i spaceResult logsResult))
     \<and> bearer_attached tok
          (trace (details_fetchSpaceDetails A (st_token s') i space_state typedSpaceResult
             logsResult patientsResult))
     \<and> bearer_attached tok (trace (fetchLogDetails A (st_token s') logId result))
     \<and> bearer_attached tok (trace (home_fetchPatients A (st_token s') user_now result))
     \<and> bearer_attached tok (trace (add_fetchPatients A (st_token s') result))
     \<and> bearer_attached tok
          (trace (details_fetchPatients A (st_token s') space_state spaceData patientsResult))
     \<and> bearer_attached tok
          (trace (handleSubmit A (st_token s') user_now spaceName descr selectedPatientIds
             errorResult))
     \<and> bearer_attached tok
          (trace (handleSubmit_without_patients A (st_token s') user_now spaceName descr
             errorResult))
     \<and> bearer_attached tok
          (trace (mock_uploadImage A rnd (st_token s') img spaceId spaceNameParam result))
     \<and> bearer_attached tok (trace (performUpload pf A (st_token s') imageUri upload_id result))
     \<and> bearer_attached tok (trace (uploadImage pf A (st_token s') pickedUri spaceId result))
     \<and> bearer_attached tok
          (trace (uploadImage_continue_anyway pf A (st_token s') imageUri result))"
proof -
  obtain tok usr where mem: "st_token s' = Some tok"
    and store: "st_store s' = (st_store s)(''userToken'' \<mapsto> tok,
                                          ''userData'' \<mapsto> JSON_stringify pf usr)"
    using signIn_succeeded_state [OF ok, of s] unfolding s'_def by blast
  have key: "st_store s' ''userToken'' = Some tok"
    by (simp add: store)
  note attached = fetchSpaces_bearer fetchSpaceDetails_bearer details_fetchSpaceDetails_bearer
    fetchLogDetails_bearer home_fetchPatients_bearer add_fetchPatients_bearer
    details_fetchPatients_bearer handleSubmit_bearer handleSubmit_without_patients_bearer
    mock_uploadImage_bearer performUpload_bearer uploadImage_bearer
    uploadImage_continue_anyway_bearer
  show ?thesis
    unfolding mem using mem key by (intro exI [of _ tok] conjI attached) simp_all
qed

theorem token_stored_and_attached_witness:
  "\<not> signIn_failed (signIn sample_platform (\<lambda>c. False) ''alice'' ''secret'' sample_login sample_me)
   \<and> st_token (state_after signed_out
        (trace (signIn sample_platform (\<lambda>c. False) ''alice'' ''secret'' sample_login sample_me)))
        = Some ''tok''
   \<and> st_store (state_after signed_out
        (trace (signIn sample_platform (\<lambda>c. False) ''alice'' ''secret'' sample_login sample_me)))
        ''userToken'' = Some ''tok''
   \<and> map headers (requests (trace (fetchSpaces ''https://api''
        (st_token (state_after signed_out
           (trace (signIn sample_platform (\<lambda>c. False) ''alice'' ''secret'' sample_login
              sample_me))))
        (Some sample_user) sample_ok))) = [[(''Authorization'', ''Bearer tok'')]]"
proof -
  have ok: "\<not> signIn_failed
      (signIn sample_platform (\<lambda>c. False) ''alice'' ''secret'' sample_login sample_me)"
    by (simp add: signIn_def signIn_failed_def proc_defs sample_defs Let_def ok_def)
  note inst = token_stored_and_attached
    [OF ok, where s = signed_out and A = "''https://api''" and user_now = "Some sample_user"
       and result = sample_ok and i = "Some ''s1''" and spaceResult = sample_ok
       and logsResult = sample_ok and space_state = None and spaceData = None
       and patientsResult = unauthorized and typedSpaceResult = unauthorized
       and logId = "Some ''l1''" and spaceName = "''Kitchen''" and descr = "[]"
       and selectedPatientIds = "[]" and errorResult = unauthorized
       and rnd = "\<lambda>k. 1 / 2" and img = "Some ''aGVsbG8=''" and spaceId = "Some ''s1''"
       and spaceNameParam = "Some ''Kitchen''" and imageUri = "''file:///tmp/room.jpg''"
       and upload_id = "''s1''" and pickedUri = "Some ''file:///tmp/room.jpg''"]
  have "st_token (state_after signed_out
          (trace (signIn sample_platform (\<lambda>c. False) ''alice'' ''secret'' sample_login
             sample_me))) \<noteq> None"
    using inst by blast
  then show ?thesis
    using ok
    by (simp add: signIn_def fetchSpaces_def state_after_def proc_defs sample_defs Let_def
        ok_def truthy_def template_def)
qed


section \<open>Requests one after the other\<close>




section \<open>The loading flags\<close>





section \<open>No retry\<close>

text \<open>
  C9. No operation retries a request: whatever the environment answers, the requests of
  one invocation go to pairwise different endpoints (a method with a URL), so that each
  endpoint is requested at most once. This holds for sign-in, sign-up, the update of the
  profile, the fetching of spaces, patients, details and logs, the creation, update and
  removal of spaces and patients, both uploads of the capture screen, and the chat.
\<close>

theorem no_operation_retries:
  "no_retry (trace (signIn pf rejects username password loginResult meResult))
   \<and> no_retry (trace (signUp signUpData errorResult))
   \<and> no_retry (trace (updateUserInfo pf rejects user_now token updateData errorResult))
   \<and> no_retry (trace (handleLogin pf rejects username password loginResult meResult))
   \<and> no_retry (trace (handleSignUp pf firstName lastName username email phoneNumber
          password errorResult))
   \<and> no_retry (trace (handleSaveProfile pf rejects user_now token formData errorResult))
   \<and> no_retry (trace (fetchSpaces A token user_now result))
   \<and> no_retry (trace (home_fetchPatients A token user_now result))
   \<and> no_retry (trace (handleDeletePatient_onPress A token patientId result))
   \<and> no_retry (trace (handleSavePatient pf A token currentPatient patientName
          patientCondition patientAge medicalHistory result))
   \<and> no_retry (trace (fetchSpaceDetails A token i spaceResult logsResult))
   \<and> no_retry (trace (details_fetchPatients A token space_state spaceData
          patientsResult))
   \<and> no_retry (trace (details_fetchSpaceDetails A token i space_state typedSpaceResult
          logsResult patientsResult))
   \<and> no_retry (trace (handleSaveSpace A token i spaceName spaceDescription
          selectedPatientIds result))
   \<and> no_retry (trace (handleDeleteSpace_onPress A token i result))
   \<and> no_retry (trace (fetchLogDetails A token logId result))
   \<and> no_retry (trace (add_fetchPatients A token result))
   \<and> no_retry (trace (handleSubmit A token user_now spaceName descr selectedPatientIds
          errorResult))
   \<and> no_retry (trace (handleSubmit_without_patients A token user_now spaceName descr
          errorResult))
   \<and> no_retry (trace (mock_uploadImage A rnd token img spaceId spaceNameParam result))
   \<and> no_retry (trace (performUpload pf A token imageUri upload_id result))
   \<and> no_retry (trace (uploadImage pf A token pickedUri spaceId result))
   \<and> no_retry (trace (uploadImage_continue_anyway pf A token imageUri result))
   \<and> no_retry (trace (onSend pf A token user_now chatUser messageHistory newMessages
          random_id now agentResult))
   \<and> no_retry (trace (onSend_plain A token chatUser messageHistory newMessages random_id
          now agentResult))"
proof -
  note account = signIn_no_retry signUp_no_retry updateUserInfo_no_retry
    handleLogin_no_retry handleSignUp_no_retry handleSaveProfile_no_retry
  note home = fetchSpaces_no_retry home_fetchPatients_no_retry
    handleDeletePatient_onPress_no_retry handleSavePatient_no_retry
  note spaces = fetchSpaceDetails_no_retry details_fetchPatients_no_retry
    details_fetchSpaceDetails_no_retry handleSaveSpace_no_retry
    handleDeleteSpace_onPress_no_retry fetchLogDetails_no_retry add_fetchPatients_no_retry
    handleSubmit_no_retry handleSubmit_without_patients_no_retry
  note capture_and_chat = mock_uploadImage_no_retry performUpload_no_retry
    uploadImage_no_retry uploadImage_continue_anyway_no_retry onSend_no_retry
    onSend_plain_no_retry
  show ?thesis
    by (intro conjI account home spaces capture_and_chat)
qed

theorem no_operation_retries_witness:
  "no_retry (trace (signIn sample_platform (\<lambda>c. False) ''alice'' ''secret'' sample_login
          sample_me))
   \<and> map url (requests (trace (signIn sample_platform (\<lambda>c. False) ''alice'' ''secret'' sample_login
          sample_me))) =
       [AUTH_API_BASE_URL @ ''/user/login'', AUTH_API_BASE_URL @ ''/user/me'']
   \<and> no_retry (trace (fetchSpaceDetails ''https://api'' (Some ''tok'') (Some ''s1'') sample_ok sample_ok))
   \<and> map url (requests (trace (fetchSpaceDetails ''https://api'' (Some ''tok'') (Some ''s1'') sample_ok sample_ok))) =
       [''https://api/space/s1'', ''https://api/space/logs/space/s1'']
   \<and> map url (requests (trace (fetchSpaces ''https://api'' (Some ''tok'') (Some sample_user) unauthorized))) = [''https://api/space/user/u1'']"
proof -
  note inst = no_operation_retries
     [where pf = sample_platform and rejects = "\<lambda>c. False" and
        username = "''alice''" and password = "''secret''" and
        loginResult = sample_login and meResult = sample_me and
        signUpData = sample_sign_up and errorResult = unauthorized and
        user_now = "Some sample_user" and token = "Some ''tok''" and
        updateData = sample_update and firstName = "''Alice''" and
        lastName = "''Doe''" and email = "''alice@example.org''" and
        phoneNumber = "''''" and formData = sample_form and A = "''https://api''" and
        result = unauthorized and patientId = "''p1''" and currentPatient = "None" and
        patientName = "''Ann''" and patientCondition = "''frail''" and
        patientAge = "''81''" and medicalHistory = "''''" and i = "Some ''s1''" and
        spaceResult = sample_ok and logsResult = sample_ok and space_state = "None" and
        spaceData = "None" and patientsResult = unauthorized and
        typedSpaceResult = unauthorized and spaceName = "''Kitchen''" and
        spaceDescription = "''''" and selectedPatientIds = "[]" and
        logId = "Some ''l1''" and descr = "''''" and rnd = "\<lambda>k. 1 / 2" and
        img = "Some ''aGVsbG8=''" and spaceId = "Some ''s1''" and
        spaceNameParam = "Some ''Kitchen''" and imageUri = "''file:///tmp/room.jpg''" and
        upload_id = "''s1''" and pickedUri = "Some ''file:///tmp/room.jpg''" and
        chatUser = "None" and messageHistory = "JArr []" and
        newMessages = "[sample_message]" and random_id = "''0.42''" and now = "0" and
        agentResult = server_error_reply]
  have "no_retry (trace (signIn sample_platform (\<lambda>c. False) ''alice'' ''secret'' sample_login
          sample_me))"
    using inst by blast
  moreover have "no_retry (trace (fetchSpaceDetails ''https://api'' (Some ''tok'') (Some ''s1'') sample_ok sample_ok))"
    using inst by blast
  ultimately show ?thesis
    by (simp add: signIn_def fetchSpaceDetails_def fetchSpaces_def proc_defs sample_defs
        Let_def ok_def truthy_def template_def template_param_def)
qed


section \<open>Responses outside the 2xx range\<close>









section \<open>Where the analysis is computed\<close>

lemma mock_uploadImage_requests:
  "requests (trace (mock_uploadImage A rnd token img spaceId spaceNameParam result)) =
     (if \<not> truthy img \<or> \<not> truthy spaceId \<or> \<not> truthy token then []
      else [\<lparr>http_method = ''POST'', url = A @ ''/space/logs/create'',
             headers = [(''Content-Type'', ''application/json''),
                        (''Authorization'', ''Bearer '' @ template token)],
             body = JsonBody (mock_payload (template_param spaceId) (template img)
                      spaceNameParam (generateMockAnalysis rnd))\<rparr>])"
  by (auto simp: mock_uploadImage_def proc_defs Let_def ok_def
      split: fetch_result.splits sum.splits
      cong: blocks_open)

lemma performUpload_requests:
  "requests (trace (performUpload pf A token imageUri upload_id result)) =
     [\<lparr>http_method = ''POST'', url = A @ ''/space/logs/upload-image'',
       headers = [(''Authorization'', ''Bearer '' @ template token)],
       body = FormData
         [(''space_id'', FormString upload_id),
          (''image'',
             FormFile imageUri
               (the (or_else (Some (last_segment imageUri)) (Some ''image.jpg'')))
               (case regex_group1 pf FileExtension
                       (the (or_else (Some (last_segment imageUri)) (Some ''image.jpg''))) of
                  Some ext \<Rightarrow> ''image/'' @ ext
                | None \<Rightarrow> ''image/jpeg''))]\<rparr>]"
  by (auto simp: performUpload_def proc_defs Let_def ok_def
      split: fetch_result.splits sum.splits
      cong: blocks_open)

text \<open>
  C1, as the code has it. The capture screen exists in two versions. The one that posts
  to \<^verbatim>\<open>/space/logs/upload-image\<close> submits the id of the space and the image file and
  nothing else: score, hazards, recommendations and bounding boxes are left to the
  backend. The one that posts to \<^verbatim>\<open>/space/logs/create\<close> computes them on the client:
  the body of its request is the payload built from the result of
  \<open>generateMockAnalysis\<close>, next to the image.
\<close>

theorem analysis_computed_where:
  "requests (trace (performUpload pf A token imageUri upload_id result)) =
     [\<lparr>http_method = ''POST'', url = A @ ''/space/logs/upload-image'',
       headers = [(''Authorization'', ''Bearer '' @ template token)],
       body = FormData
         [(''space_id'', FormString upload_id),
          (''image'',
             FormFile imageUri
               (the (or_else (Some (last_segment imageUri)) (Some ''image.jpg'')))
               (case regex_group1 pf FileExtension
                       (the (or_else (Some (last_segment imageUri)) (Some ''image.jpg''))) of
                  Some ext \<Rightarrow> ''image/'' @ ext
                | None \<Rightarrow> ''image/jpeg''))]\<rparr>]
   \<and> requests (trace (mock_uploadImage A rnd token img spaceId spaceNameParam result)) =
     (if \<not> truthy img \<or> \<not> truthy spaceId \<or> \<not> truthy token then []
      else [\<lparr>http_method = ''POST'', url = A @ ''/space/logs/create'',
             headers = [(''Content-Type'', ''application/json''),
                        (''Authorization'', ''Bearer '' @ template token)],
             body = JsonBody (mock_payload (template_param spaceId) (template img)
                      spaceNameParam (generateMockAnalysis rnd))\<rparr>])
   \<and> mock_payload sid im sn (generateMockAnalysis rnd) =
       JObj [(''space_id'', JStr sid),
             (''image_data'', JStr im),
             (''score'', JNum (real_of_int (score (generateMockAnalysis rnd)))),
             (''bounding_box_info'',
                JObj [(''objects'',
                   JArr [JObj [(''type'', JStr ''furniture''),
                               (''confidence'', JNum (92 / 100)),
                               (''bbox'', JArr [JNum 50, JNum 80, JNum 200, JNum 300])]])]),
             (''recommendations'',
                json_of_strings (recommendations (generateMockAnalysis rnd))),
             (''hazard_list'',
                JObj [(''high_priority'',
                         json_of_strings (high_priority (hazards (generateMockAnalysis rnd)))),
                      (''medium_priority'',
                         json_of_strings (medium_priority (hazards (generateMockAnalysis rnd)))),
                      (''low_priority'',
                         json_of_strings (low_priority (hazards (generateMockAnalysis rnd))))]),
             (''comments'', JStr (''Safety assessment for '' @ template_param sn))]"
proof -
  have boxes: "bounding_box_info (generateMockAnalysis rnd) =
      [\<lparr>object_type = ''furniture'', confidence = 92 / 100, bbox = [50, 80, 200, 300]\<rparr>]"
    by (simp add: generateMockAnalysis_def Let_def)
  have payload: "mock_payload sid im sn (generateMockAnalysis rnd) =
       JObj [(''space_id'', JStr sid),
             (''image_data'', JStr im),
             (''score'', JNum (real_of_int (score (generateMockAnalysis rnd)))),
             (''bounding_box_info'',
                JObj [(''objects'',
                   JArr [JObj [(''type'', JStr ''furniture''),
                               (''confidence'', JNum (92 / 100)),
                               (''bbox'', JArr [JNum 50, JNum 80, JNum 200, JNum 300])]])]),
             (''recommendations'',
                json_of_strings (recommendations (generateMockAnalysis rnd))),
             (''hazard_list'',
                JObj [(''high_priority'',
                         json_of_strings (high_priority (hazards (generateMockAnalysis rnd)))),
                      (''medium_priority'',
                         json_of_strings (medium_priority (hazards (generateMockAnalysis rnd)))),
                      (''low_priority'',
                         json_of_strings (low_priority (hazards (generateMockAnalysis rnd))))]),
             (''comments'', JStr (''Safety assessment for '' @ template_param sn))]"
    unfolding mock_payload_def boxes by (simp add: json_of_object_def)
  show ?thesis
    using performUpload_requests [of pf A token imageUri upload_id result]
      mock_uploadImage_requests [of A rnd token img spaceId spaceNameParam result] payload
    by blast
qed

theorem analysis_computed_where_witness:
  "requests (trace (performUpload sample_platform ''https://api'' (Some ''tok'')
      ''file:///tmp/room.jpg'' ''s1'' sample_ok)) =
     [\<lparr>http_method = ''POST'', url = ''https://api/space/logs/upload-image'',
       headers = [(''Authorization'', ''Bearer tok'')],
       body = FormData [(''space_id'', FormString ''s1''),
                        (''image'', FormFile ''file:///tmp/room.jpg'' ''room.jpg''
                                      ''image/jpeg'')]\<rparr>]
   \<and> truthy (Some ''aGVsbG8='') \<and> truthy (Some ''s1'') \<and> truthy (Some ''tok'')
   \<and> map url (requests (trace (mock_uploadImage ''https://api'' (\<lambda>k. 1 / 2) (Some ''tok'')
        (Some ''aGVsbG8='') (Some ''s1'') (Some ''Kitchen'') sample_ok))) =
       [''https://api/space/logs/create'']"
  using analysis_computed_where
    [where pf = sample_platform and A = "''https://api''" and token = "Some ''tok''"
       and imageUri = "''file:///tmp/room.jpg''" and upload_id = "''s1''"
       and result = sample_ok and rnd = "\<lambda>k. 1 / 2" and img = "Some ''aGVsbG8=''"
       and spaceId = "Some ''s1''" and spaceNameParam = "Some ''Kitchen''"
       and sid = "''s1''" and im = "''aGVsbG8=''" and sn = "Some ''Kitchen''"]
  by (simp add: sample_defs truthy_def template_def or_else_def last_segment_def)

text \<open>
  The claim as it is written fails for the version that posts to \<^verbatim>\<open>/space/logs/create\<close>.
  When every call of \<^verbatim>\<open>Math.random\<close> returns one half, the client itself computes the
  score 80, one medium and one low hazard and one recommendation, and submits them.
\<close>

theorem client_side_analysis_counterexample:
  "requests (trace (mock_uploadImage ''https://api'' (\<lambda>k. 1 / 2) (Some ''tok'')
      (Some ''aGVsbG8='') (Some ''s1'') (Some ''Kitchen'') sample_ok)) =
     [\<lparr>http_method = ''POST'', url = ''https://api/space/logs/create'',
       headers = [(''Content-Type'', ''application/json''),
                  (''Authorization'', ''Bearer tok'')],
       body = JsonBody
         (JObj [(''space_id'', JStr ''s1''),
                (''image_data'', JStr ''aGVsbG8=''),
                (''score'', JNum 80),
                (''bounding_box_info'',
                   JObj [(''objects'',
                      JArr [JObj [(''type'', JStr ''furniture''),
                                  (''confidence'', JNum (92 / 100)),
                                  (''bbox'', JArr [JNum 50, JNum 80, JNum 200, JNum 300])]])]),
                (''recommendations'', JArr [JStr ''Remove trip hazards from walkways'']),
                (''hazard_list'',
                   JObj [(''high_priority'', JArr []),
                         (''medium_priority'', JArr [JStr ''Loose carpeting'']),
                         (''low_priority'', JArr [JStr ''Furniture placement''])]),
                (''comments'', JStr ''Safety assessment for Kitchen'')])\<rparr>]"
proof -
  have pick: "js_index possibleRecommendations
      (random_floor (\<lambda>k. 1 / 2) k (length possibleRecommendations)) =
      Some ''Remove trip hazards from walkways''" for k
    by (simp add: random_floor_def js_index_def possibleRecommendations_def)
  have recs: "recommendations_loop (\<lambda>k. 1 / 2) k 0 3 [] =
      [Some ''Remove trip hazards from walkways'']" for k
    by (simp add: loop_unfold loop_stop pick)
  have analysis: "generateMockAnalysis (\<lambda>k. 1 / 2) =
      \<lparr>score = 80,
       bounding_box_info =
         [\<lparr>object_type = ''furniture'', confidence = 92 / 100, bbox = [50, 80, 200, 300]\<rparr>],
       recommendations = [Some ''Remove trip hazards from walkways''],
       hazards = \<lparr>high_priority = [], medium_priority = [Some ''Loose carpeting''],
                  low_priority = [Some ''Furniture placement'']\<rparr>\<rparr>"
    by (simp add: generateMockAnalysis_def Let_def random_floor_def js_index_def recs
        high_priority_hazards_def medium_priority_hazards_def low_priority_hazards_def)
  show ?thesis
    unfolding mock_uploadImage_requests analysis
    by (simp add: mock_payload_def json_of_strings_def json_of_object_def truthy_def
        template_def template_param_def)
qed


end
